theory Spec2Isabelle
  imports Complex_Main
begin

section \<open>color-classifier: \<^verbatim>\<open>src/utils/color.js\<close>\<close>

text \<open>
  The class \<^verbatim>\<open>Color\<close> of \<^verbatim>\<open>src/utils/color.js\<close>: hex normalisation, the
  constructor, the three distance functions and their dispatch. \<^verbatim>\<open>null\<close> is \<open>None\<close>,
  and a thrown exception is the left injection of a sum.

  JavaScript numbers are IEEE 754 doubles. In \<open>rgbDistance\<close> the rounding of
  \<^verbatim>\<open>Math.sqrt\<close> is modelled, since the triangle inequality depends on it; every other
  operation of that function is exact for the integer channels of a colour. The HSV and
  CIEDE2000 functions are modelled in exact real arithmetic; what is proved of the
  locals of CIEDE2000 is stated as equations and bounds between the values the function
  computes, the inputs and the earlier locals.
\<close>

subsection \<open>Errors\<close>

text \<open>
  The only exception the source can raise is JavaScript's own \<^verbatim>\<open>TypeError\<close> (reading a
  property of \<^verbatim>\<open>null\<close>, calling \<^verbatim>\<open>undefined\<close>). \<open>ColorParseError\<close> and
  \<open>UnknownAlgorithmError\<close> are the error names of the specification; no path of the source
  constructs either of them. Both carry the offending input.
\<close>

datatype js_error = TypeError | ColorParseError string | UnknownAlgorithmError string

subsection \<open>The helpers of \<^verbatim>\<open>./math\<close> and \<^verbatim>\<open>Math.atan2\<close>\<close>

text \<open>
  Modelled from the spec: \<^verbatim>\<open>radians\<close>, imported from \<^verbatim>\<open>./math\<close>, a file that is not
  among the sources. The specification converts degrees to radians before every
  trigonometric call.
\<close>

definition radians :: "real \<Rightarrow> real" where
  "radians n = n * (pi / 180)"

text \<open>
  Modelled from the spec: \<^verbatim>\<open>degrees\<close>, imported from \<^verbatim>\<open>./math\<close>; the specification
  converts the result of \<^verbatim>\<open>atan2\<close> to degrees.
\<close>

definition degrees :: "real \<Rightarrow> real" where
  "degrees n = n * (180 / pi)"

text \<open>
  Modelled from the spec: \<^verbatim>\<open>hypot\<close>, imported from \<^verbatim>\<open>./math\<close>; the glossary gives the
  chroma \<^verbatim>\<open>hypot(a,b)\<close> as the radial distance in the a/b plane.
\<close>

definition hypot :: "real \<Rightarrow> real \<Rightarrow> real" where
  "hypot x y = sqrt (x * x + y * y)"

text \<open>
  Modelled from the spec: \<^verbatim>\<open>pow2\<close> and \<^verbatim>\<open>pow7\<close>, imported from \<^verbatim>\<open>./math\<close>; the
  specification writes them as the square and the seventh power.
\<close>

definition pow2 :: "real \<Rightarrow> real" where
  "pow2 n = n * n"

definition pow7 :: "real \<Rightarrow> real" where
  "pow7 n = n * n * n * n * n * n * n"

text \<open>
  \<^verbatim>\<open>Math.atan2(y, x)\<close>: the angle of the point \<open>(x, y)\<close>, in \<open>(-pi, pi]\<close>, and \<open>0\<close> at
  the origin.
\<close>

definition atan2 :: "real \<Rightarrow> real \<Rightarrow> real" where
  "atan2 y x =
     (if 0 < x then arctan (y / x)
      else if x < 0 then (if 0 \<le> y then arctan (y / x) + pi else arctan (y / x) - pi)
      else if 0 < y then pi / 2
      else if y < 0 then - (pi / 2)
      else 0)"

subsection \<open>Rounding to a double, and \<^verbatim>\<open>Math.sqrt\<close>\<close>

text \<open>The integer nearest to a real; a tie goes to the even neighbour.\<close>

definition round_even :: "real \<Rightarrow> int" where
  "round_even y =
     (let n = \<lfloor>y\<rfloor>;
          d = y - of_int n
      in if d < 1 / 2 then n else if 1 / 2 < d then n + 1 else if even n then n else n + 1)"

text \<open>
  The double nearest to a real, ties to even: a double has 53 significant bits, so a real
  of magnitude in \<open>[2^e, 2^(e+1))\<close> is rounded to a multiple of \<open>2^(e-52)\<close>. Overflow and
  subnormal numbers are not modelled; the square roots \<open>rgbDistance\<close> takes are \<open>0\<close> or
  between \<open>1\<close> and \<open>442\<close>.
\<close>

definition round_double :: "real \<Rightarrow> real" where
  "round_double x =
     (if x = 0 then 0
      else (let e = \<lfloor>log 2 \<bar>x\<bar>\<rfloor> - 52
            in of_int (round_even (x / 2 powr of_int e)) * 2 powr of_int e))"

text \<open>
  \<^verbatim>\<open>Math.sqrt\<close> on an argument that is not negative: the square root, correctly rounded
  as IEEE 754 requires of the operation.
\<close>

definition Math_sqrt :: "real \<Rightarrow> real" where
  "Math_sqrt x = round_double (sqrt x)"

subsection \<open>Data\<close>

text \<open>
  The objects \<^verbatim>\<open>{r, g, b}\<close> and \<^verbatim>\<open>{h, s, v}\<close>, and a constructed \<^verbatim>\<open>Color\<close>. The
  field \<open>hex\<close> holds what \<^verbatim>\<open>normalizeHex\<close> returned, which may be \<^verbatim>\<open>null\<close>.
\<close>

record RGB =
  rgb_r :: real
  rgb_g :: real
  rgb_b :: real

record HSV =
  hsv_h :: real
  hsv_s :: real
  hsv_v :: real

record Color =
  original :: string
  hex :: "string option"
  rgb :: RGB
  hsv :: HSV

text \<open>
  The package \<^verbatim>\<open>color-convert\<close> is an external collaborator: its three conversions are
  parameters of the model. Each returns an array of three numbers.
\<close>

record convert =
  hex_rgb :: "string \<Rightarrow> real \<times> real \<times> real"
  rgb_hsv :: "real \<times> real \<times> real \<Rightarrow> real \<times> real \<times> real"
  hex_lab :: "string option \<Rightarrow> real \<times> real \<times> real"

text \<open>
  The RGB triple of a colour sample, as the specification's data model has it and as
  \<^verbatim>\<open>color-convert\<close> returns it for a hex string: three integer channels from \<open>0\<close> to
  \<open>255\<close>. The LAB triple of a sample in the ranges the specification gives for the
  conversion.
\<close>

definition valid_rgb :: "RGB \<Rightarrow> bool" where
  "valid_rgb c =
     (rgb_r c \<in> \<int> \<and> 0 \<le> rgb_r c \<and> rgb_r c \<le> 255
      \<and> rgb_g c \<in> \<int> \<and> 0 \<le> rgb_g c \<and> rgb_g c \<le> 255
      \<and> rgb_b c \<in> \<int> \<and> 0 \<le> rgb_b c \<and> rgb_b c \<le> 255)"

definition valid_lab :: "real \<Rightarrow> real \<Rightarrow> real \<Rightarrow> bool" where
  "valid_lab l a b = (0 \<le> l \<and> l \<le> 100 \<and> - 128 \<le> a \<and> a \<le> 127 \<and> - 128 \<le> b \<and> b \<le> 127)"

subsection \<open>Hex normalisation and parsing\<close>

text \<open>The character class \<^verbatim>\<open>[a-fA-F0-9]\<close>, by character code.\<close>

definition hex_class :: "char \<Rightarrow> bool" where
  "hex_class c =
     (let n = (of_char c :: nat)
      in (97 \<le> n \<and> n \<le> 102) \<or> (65 \<le> n \<and> n \<le> 70) \<or> (48 \<le> n \<and> n \<le> 57))"

text \<open>
  The hexadecimal digits in either case, as the specification names the characters a
  colour string is made of; \<open>hex_class\<close> above is the same set by character code.
\<close>

definition hex_digits :: "char set" where
  "hex_digits = set ''0123456789abcdefABCDEF''"

text \<open>
  \<^verbatim>\<open>HEX.test\<close> for \<^verbatim>\<open>/^#([a-fA-F0-9]{6})$/\<close> and \<^verbatim>\<open>HEX_SHORT.test\<close> for
  \<^verbatim>\<open>/^#([a-fA-F0-9]{3})$/\<close>. Neither expression has the multiline flag, so the anchors
  are the two ends of the input. A string is a list of 8-bit characters here; a character
  outside ASCII is outside the class however it is encoded, so such a string fails both
  tests, as it does in JavaScript.
\<close>

definition HEX_test :: "string \<Rightarrow> bool" where
  "HEX_test s = (case s of [] \<Rightarrow> False
                 | c # ds \<Rightarrow> c = CHR ''#'' \<and> length ds = 6 \<and> list_all hex_class ds)"

definition HEX_SHORT_test :: "string \<Rightarrow> bool" where
  "HEX_SHORT_test s = (case s of [] \<Rightarrow> False
                       | c # ds \<Rightarrow> c = CHR ''#'' \<and> length ds = 3 \<and> list_all hex_class ds)"

text \<open>\<^verbatim>\<open>String.prototype.slice(i, j)\<close> for \<open>0 \<le> i \<le> j\<close>.\<close>

definition slice :: "string \<Rightarrow> nat \<Rightarrow> nat \<Rightarrow> string" where
  "slice s i j = take (j - i) (drop i s)"

definition normalizeHex :: "string \<Rightarrow> string option" where
  "normalizeHex hex_in =
     (if HEX_test hex_in then Some hex_in
      else if HEX_SHORT_test hex_in then
        (let r = slice hex_in 1 2;
             g = slice hex_in 2 3;
             b = slice hex_in 3 4
         in Some (''#'' @ (r @ r) @ (g @ g) @ (b @ b)))
      else None)"

text \<open>
  \<^verbatim>\<open>parseHex\<close> is also called with \<^verbatim>\<open>null\<close> (by the constructor, after a failed
  normalisation). \<^verbatim>\<open>RegExp.prototype.test\<close> converts its argument to a string, and
  \<^verbatim>\<open>null\<close> becomes the four characters \<^verbatim>\<open>null\<close>.
\<close>

definition ToString :: "string option \<Rightarrow> string" where
  "ToString x = (case x of None \<Rightarrow> ''null'' | Some s \<Rightarrow> s)"

definition parseHex :: "convert \<Rightarrow> string option \<Rightarrow> RGB option" where
  "parseHex cv hex_in =
     (let normalizedHex = normalizeHex (ToString hex_in)
      in case normalizedHex of
           None \<Rightarrow> None
         | Some n \<Rightarrow> (case hex_rgb cv n of (r, g, b) \<Rightarrow> Some \<lparr>rgb_r = r, rgb_g = g, rgb_b = b\<rparr>))"

text \<open>
  \<^verbatim>\<open>rgbToHsv(rgb)\<close> reads \<^verbatim>\<open>rgb.r\<close> first: on \<^verbatim>\<open>null\<close> that read throws a
  \<^verbatim>\<open>TypeError\<close>.
\<close>

definition rgbToHsv :: "convert \<Rightarrow> RGB option \<Rightarrow> js_error + HSV" where
  "rgbToHsv cv rgb_in =
     (case rgb_in of
        None \<Rightarrow> Inl TypeError
      | Some c \<Rightarrow> (case rgb_hsv cv (rgb_r c, rgb_g c, rgb_b c) of
                    (h, s, v) \<Rightarrow> Inr \<lparr>hsv_h = h, hsv_s = s, hsv_v = v\<rparr>))"

subsection \<open>The constructor\<close>

text \<open>
  The constructor assigns \<^verbatim>\<open>this.original\<close>, \<^verbatim>\<open>this.hex\<close>, \<^verbatim>\<open>this.rgb\<close> and
  \<^verbatim>\<open>this.hsv\<close> in this order. When a call throws, \<^verbatim>\<open>new Color(hex)\<close> throws and the
  caller receives no object. \<^verbatim>\<open>rgbToHsv\<close> returns only for an \<^verbatim>\<open>rgb\<close> that is not
  \<^verbatim>\<open>null\<close>, which is the \<open>rgb\<close> the object then holds.
\<close>

definition Color_constructor :: "convert \<Rightarrow> string \<Rightarrow> js_error + Color" where
  "Color_constructor cv hex_in =
     (let this_original = hex_in;
          this_hex = normalizeHex hex_in;
          this_rgb = parseHex cv this_hex
      in case rgbToHsv cv this_rgb of
           Inl e \<Rightarrow> Inl e
         | Inr this_hsv \<Rightarrow>
             (case this_rgb of
                None \<Rightarrow> Inl TypeError
              | Some c \<Rightarrow> Inr \<lparr>original = this_original, hex = this_hex,
                                rgb = c, hsv = this_hsv\<rparr>))"

subsection \<open>RGB and HSV distance\<close>

text \<open>
  For integer channels from \<open>0\<close> to \<open>255\<close> the differences, their squares and the sum are
  integers below \<open>2^53\<close>, which double arithmetic computes exactly; the square root is
  rounded.
\<close>

definition rgbDistance :: "Color \<Rightarrow> Color \<Rightarrow> real" where
  "rgbDistance color1 color2 =
     (let a = rgb color1;
          b = rgb color2
      in Math_sqrt (pow2 (rgb_r a - rgb_r b) + pow2 (rgb_g a - rgb_g b)
                    + pow2 (rgb_b a - rgb_b b)))"

text \<open>Both locals of \<^verbatim>\<open>hsvDistance\<close> are bound to \<^verbatim>\<open>color1.hsv\<close>, as in the source.\<close>

definition hsvDistance :: "Color \<Rightarrow> Color \<Rightarrow> real" where
  "hsvDistance color1 color2 =
     (let a = hsv color1;
          b = hsv color1;
          hueDiff = (if hsv_h a > hsv_h b
                     then min (hsv_h a - hsv_h b) (hsv_h b - hsv_h a + 360)
                     else min (hsv_h b - hsv_h a) (hsv_h a - hsv_h b + 360))
      in sqrt (pow2 hueDiff + pow2 (hsv_s a - hsv_s b) + pow2 (hsv_v a - hsv_v b)))"

text \<open>
  The HSV distance of the specification (section 4.3), following its words: the circular
  hue difference \<open>min(|dh|, 360 - |dh|)\<close> of the two samples' hues, and the differences of
  saturation and value of the first and the second sample.
\<close>

definition hsvDistance_spec :: "Color \<Rightarrow> Color \<Rightarrow> real" where
  "hsvDistance_spec color1 color2 =
     (let dh = \<bar>hsv_h (hsv color1) - hsv_h (hsv color2)\<bar>;
          hueDiff = min dh (360 - dh)
      in sqrt (hueDiff\<^sup>2 + (hsv_s (hsv color1) - hsv_s (hsv color2))\<^sup>2
               + (hsv_v (hsv color1) - hsv_v (hsv color2))\<^sup>2))"

subsection \<open>CIEDE2000\<close>

text \<open>
  Every local constant of \<^verbatim>\<open>_ciede2kDistance\<close>, in the order of the source. \<open>v_under\<close>
  is the argument of the final \<^verbatim>\<open>sqrt\<close> and \<open>v_ret\<close> the value returned. The operations
  are those of exact real arithmetic.
\<close>

record ciede2k_locals =
  v_c1 :: real
  v_c2 :: real
  v_ac1c2 :: real
  v_g :: real
  v_a1p :: real
  v_a2p :: real
  v_c1p :: real
  v_c2p :: real
  v_h1pd :: real
  v_h1p :: real
  v_h2pd :: real
  v_h2p :: real
  v_dlp :: real
  v_dcp :: real
  v_dhp :: real
  v_al :: real
  v_acp :: real
  v_ahp :: real
  v_t :: real
  v_dro :: real
  v_rc :: real
  v_sl :: real
  v_sc :: real
  v_sh :: real
  v_rt :: real
  v_under :: real
  v_ret :: real

definition ciede2k_run :: "real \<Rightarrow> real \<Rightarrow> real \<Rightarrow> real \<Rightarrow> real \<Rightarrow> real \<Rightarrow> ciede2k_locals" where
  "ciede2k_run l1 a1 b1 l2 a2 b2 =
     (let kl = 1;
          kc = 1;
          kh = 1;
          c1 = hypot a1 b1;
          c2 = hypot a2 b2;
          ac1c2 = (c1 + c2) / 2;
          g = 0.5 * (1 - sqrt (pow7 ac1c2 / (pow7 ac1c2 + pow7 25)));
          a1p = (1 + g) * a1;
          a2p = (1 + g) * a2;
          c1p = sqrt (pow2 a1p + pow2 b1);
          c2p = sqrt (pow2 a2p + pow2 b2);
          h1pd = degrees (atan2 b1 a1p);
          h1p = (if b1 = 0 \<and> a1p = 0 then 0 else if h1pd > 0 then h1pd else h1pd + 360);
          h2pd = degrees (atan2 b2 a2p);
          h2p = (if b2 = 0 \<and> a2p = 0 then 0 else if h2pd > 0 then h2pd else h2pd + 360);
          dlp = l2 - l1;
          dcp = c2p - c1p;
          dhp = 2 * sqrt (c1p * c2p)
                * sin (radians (if c1 * c2 = 0 then 0
                                else if \<bar>h2p - h1p\<bar> \<le> 180 then h2p - h1p
                                else if (h2p - h1p) > 180 then (h2p - h1p) - 360
                                else (h2p - h1p) + 360) / 2);
          al = (l1 + l2) / 2;
          acp = (c1p + c2p) / 2;
          ahp = (if c1 * c2 = 0 then h1p + h2p
                 else if \<bar>h1p - h2p\<bar> \<le> 180 then (h1p + h2p) / 2
                 else if \<bar>h1p - h2p\<bar> > 180 \<and> h1p + h2p < 360 then (h1p + h2p + 360) / 2
                 else (h1p + h2p - 360) / 2);
          t = 1 - 0.17 * cos (radians (ahp - 30)) + 0.24 * cos (radians (2 * ahp))
              + 0.32 * cos (radians (3 * ahp + 6)) - 0.20 * cos (radians (4 * ahp - 63));
          dro = 30 * exp (- (pow2 ((ahp - 275) / 25)));
          rc = sqrt (pow7 acp / (pow7 acp + pow7 25));
          sl = 1 + ((0.015 * pow2 (al - 50)) / sqrt (20 + pow2 (al - 50)));
          sc = 1 + 0.045 * acp;
          sh = 1 + 0.015 * acp * t;
          rt = -2 * rc * sin (radians (2 * dro));
          under = pow2 (dlp / (sl * kl)) + pow2 (dcp / (sc * kc)) + pow2 (dhp / (sh * kh))
                  + rt * (dcp / (sc * kc)) * (dhp / (sh * kh))
      in \<lparr>v_c1 = c1, v_c2 = c2, v_ac1c2 = ac1c2, v_g = g, v_a1p = a1p, v_a2p = a2p,
          v_c1p = c1p, v_c2p = c2p, v_h1pd = h1pd, v_h1p = h1p, v_h2pd = h2pd, v_h2p = h2p,
          v_dlp = dlp, v_dcp = dcp, v_dhp = dhp, v_al = al, v_acp = acp, v_ahp = ahp,
          v_t = t, v_dro = dro, v_rc = rc, v_sl = sl, v_sc = sc, v_sh = sh, v_rt = rt,
          v_under = under, v_ret = sqrt under\<rparr>)"

text \<open>\<^verbatim>\<open>_ciede2kDistance\<close> (an Isabelle name cannot start with an underscore).\<close>

definition u_ciede2kDistance :: "real \<Rightarrow> real \<Rightarrow> real \<Rightarrow> real \<Rightarrow> real \<Rightarrow> real \<Rightarrow> real" where
  "u_ciede2kDistance l1 a1 b1 l2 a2 b2 = v_ret (ciede2k_run l1 a1 b1 l2 a2 b2)"

definition ciede2kDistance :: "convert \<Rightarrow> Color \<Rightarrow> Color \<Rightarrow> real" where
  "ciede2kDistance cv color1 color2 =
     (let a = hex_lab cv (hex color1);
          b = hex_lab cv (hex color2)
      in case a of (l1, a1, b1) \<Rightarrow> (case b of (l2, a2, b2) \<Rightarrow>
           u_ciede2kDistance l1 a1 b1 l2 a2 b2))"

subsection \<open>Dispatch\<close>

definition AlgorithmTypes_CIEDE2000 :: string where
  "AlgorithmTypes_CIEDE2000 = ''CIEDE2000''"

definition AlgorithmTypes_HSV :: string where
  "AlgorithmTypes_HSV = ''HSV''"

definition AlgorithmTypes_RGB :: string where
  "AlgorithmTypes_RGB = ''RGB''"

definition distanceMethodMap :: "(string \<times> string) list" where
  "distanceMethodMap =
     [(AlgorithmTypes_CIEDE2000, ''ciede2kDistance''),
      (AlgorithmTypes_HSV, ''hsvDistance''),
      (AlgorithmTypes_RGB, ''rgbDistance'')]"

text \<open>
  The static methods of \<^verbatim>\<open>Color\<close> that \<open>distanceMethodMap\<close> names, by property name.
\<close>

definition Color_static :: "convert \<Rightarrow> (string \<times> (Color \<Rightarrow> Color \<Rightarrow> real)) list" where
  "Color_static cv =
     [(''rgbDistance'', rgbDistance),
      (''hsvDistance'', hsvDistance),
      (''ciede2kDistance'', ciede2kDistance cv)]"

text \<open>
  \<^verbatim>\<open>Color[distanceMethodMap[algorithmType]](color1, color2)\<close>. For a string that is not
  an own key of \<open>distanceMethodMap\<close> the inner lookup gives \<^verbatim>\<open>undefined\<close>, or a member
  inherited from \<^verbatim>\<open>Object.prototype\<close> (a function or an object, for a key such as
  \<^verbatim>\<open>toString\<close>); converted to a property name, neither names a property of \<^verbatim>\<open>Color\<close>,
  so the outer lookup gives \<^verbatim>\<open>undefined\<close> and calling it throws a \<^verbatim>\<open>TypeError\<close>.
\<close>

definition distance :: "convert \<Rightarrow> Color \<Rightarrow> Color \<Rightarrow> string \<Rightarrow> js_error + real" where
  "distance cv color1 color2 algorithmType =
     (case map_of distanceMethodMap algorithmType of
        None \<Rightarrow> Inl TypeError
      | Some m \<Rightarrow> (case map_of (Color_static cv) m of
                    None \<Rightarrow> Inl TypeError
                  | Some f \<Rightarrow> Inr (f color1 color2)))"

subsection \<open>Sample values\<close>

text \<open>
  Concrete inputs for the examples below: the colours \<^verbatim>\<open>#000000\<close> and \<^verbatim>\<open>#ffffff\<close> as
  the constructor builds them, and a conversion table that agrees with
  \<^verbatim>\<open>color-convert\<close> on these two colours and is used for them only.
\<close>

definition sample_convert :: convert where
  "sample_convert =
     \<lparr>hex_rgb = (\<lambda>s. if s = ''#ffffff'' then (255, 255, 255) else (0, 0, 0)),
      rgb_hsv = (\<lambda>c. if c = (255, 255, 255) then (0, 0, 100) else (0, 0, 0)),
      hex_lab = (\<lambda>s. if s = Some ''#ffffff'' then (100, 0, 0) else (0, 0, 0))\<rparr>"

definition black :: Color where
  "black = \<lparr>original = ''#000000'', hex = Some ''#000000'',
            rgb = \<lparr>rgb_r = 0, rgb_g = 0, rgb_b = 0\<rparr>,
            hsv = \<lparr>hsv_h = 0, hsv_s = 0, hsv_v = 0\<rparr>\<rparr>"

definition white :: Color where
  "white = \<lparr>original = ''#ffffff'', hex = Some ''#ffffff'',
            rgb = \<lparr>rgb_r = 255, rgb_g = 255, rgb_b = 255\<rparr>,
            hsv = \<lparr>hsv_h = 0, hsv_s = 0, hsv_v = 100\<rparr>\<rparr>"

text \<open>The colours \<^verbatim>\<open>#000101\<close> and \<^verbatim>\<open>#000404\<close>.\<close>

definition color_000101 :: Color where
  "color_000101 = \<lparr>original = ''#000101'', hex = Some ''#000101'',
                   rgb = \<lparr>rgb_r = 0, rgb_g = 1, rgb_b = 1\<rparr>,
                   hsv = \<lparr>hsv_h = 180, hsv_s = 100, hsv_v = 0\<rparr>\<rparr>"

definition color_000404 :: Color where
  "color_000404 = \<lparr>original = ''#000404'', hex = Some ''#000404'',
                   rgb = \<lparr>rgb_r = 0, rgb_g = 4, rgb_b = 4\<rparr>,
                   hsv = \<lparr>hsv_h = 180, hsv_s = 100, hsv_v = 2\<rparr>\<rparr>"

section \<open>Properties\<close>

subsection \<open>Hex normalisation\<close>

lemma hex_class_iff: "hex_class c \<longleftrightarrow> c \<in> hex_digits"
  unfolding hex_digits_def by (cases c) (simp add: hex_class_def Let_def)

lemma HEX_test_iff:
  "HEX_test s \<longleftrightarrow> length s = 7 \<and> hd s = CHR ''#'' \<and> set (tl s) \<subseteq> hex_digits"
  by (cases s) (auto simp: HEX_test_def list_all_iff hex_class_iff)

lemma HEX_SHORT_test_iff:
  "HEX_SHORT_test s \<longleftrightarrow> length s = 4 \<and> hd s = CHR ''#'' \<and> set (tl s) \<subseteq> hex_digits"
  by (cases s) (auto simp: HEX_SHORT_test_def list_all_iff hex_class_iff)

lemma normalizeHex_short:
  "normalizeHex [CHR ''#'', r, g, b] =
     (if {r, g, b} \<subseteq> hex_digits then Some [CHR ''#'', r, r, g, g, b, b] else None)"
  by (simp add: normalizeHex_def HEX_test_iff HEX_SHORT_test_iff slice_def)

text \<open>
  C7. \<open>normalizeHex\<close> returns a string of seven characters, \<open>#\<close> and six hexadecimal
  digits of either case, unchanged; it returns a string of four characters, \<open>#\<close> and three
  hexadecimal digits, with every digit written twice; and it returns \<^verbatim>\<open>null\<close> (here
  \<open>None\<close>) for every other string. The function is total: it has no exceptional result.
\<close>

theorem normalizeHex_cases:
  "(length s = 7 \<and> hd s = CHR ''#'' \<and> set (tl s) \<subseteq> hex_digits
      \<longrightarrow> normalizeHex s = Some s)
   \<and> (\<forall>r g b. s = [CHR ''#'', r, g, b] \<and> {r, g, b} \<subseteq> hex_digits
      \<longrightarrow> normalizeHex s = Some [CHR ''#'', r, r, g, g, b, b])
   \<and> (\<not> (length s = 7 \<and> hd s = CHR ''#'' \<and> set (tl s) \<subseteq> hex_digits)
      \<and> \<not> (length s = 4 \<and> hd s = CHR ''#'' \<and> set (tl s) \<subseteq> hex_digits)
      \<longrightarrow> normalizeHex s = None)"
proof (intro conjI impI allI)
  assume "length s = 7 \<and> hd s = CHR ''#'' \<and> set (tl s) \<subseteq> hex_digits"
  then show "normalizeHex s = Some s"
    by (simp add: normalizeHex_def HEX_test_iff)
next
  fix r g b
  assume "s = [CHR ''#'', r, g, b] \<and> {r, g, b} \<subseteq> hex_digits"
  then show "normalizeHex s = Some [CHR ''#'', r, r, g, g, b, b]"
    using normalizeHex_short [of r g b] by simp
next
  assume "\<not> (length s = 7 \<and> hd s = CHR ''#'' \<and> set (tl s) \<subseteq> hex_digits)
      \<and> \<not> (length s = 4 \<and> hd s = CHR ''#'' \<and> set (tl s) \<subseteq> hex_digits)"
  then have "\<not> HEX_test s" and "\<not> HEX_SHORT_test s"
    unfolding HEX_test_iff HEX_SHORT_test_iff by blast+
  then show "normalizeHex s = None"
    by (simp add: normalizeHex_def)
qed

theorem normalizeHex_cases_witness:
  "normalizeHex ''#AABBCC'' = Some ''#AABBCC''
   \<and> normalizeHex ''#abc'' = Some ''#aabbcc''
   \<and> normalizeHex ''notacolor'' = None"
proof (intro conjI)
  show "normalizeHex ''#AABBCC'' = Some ''#AABBCC''"
    using normalizeHex_cases [of "''#AABBCC''"] by (simp add: hex_digits_def)
  show "normalizeHex ''#abc'' = Some ''#aabbcc''"
    using normalizeHex_cases [of "''#abc''"] by (simp add: hex_digits_def)
  show "normalizeHex ''notacolor'' = None"
    using normalizeHex_cases [of "''notacolor''"] by (simp add: hex_digits_def)
qed

subsection \<open>Rounding to a double\<close>

lemma round_even_error: "\<bar>of_int (round_even y) - y\<bar> \<le> 1 / 2"
proof -
  have "of_int \<lfloor>y\<rfloor> \<le> y" "y < of_int \<lfloor>y\<rfloor> + 1" by linarith+
  then show ?thesis
    by (auto simp: round_even_def Let_def)
qed

lemma round_even_unique:
  assumes "of_int n - 1 / 2 < y" and "y < of_int n + 1 / 2"
  shows "round_even y = n"
proof -
  have e: "\<bar>of_int (round_even y) - y\<bar> \<le> 1 / 2" by (rule round_even_error)
  have "\<bar>(of_int (round_even y) :: real) - of_int n\<bar> < 1"
    using e assms by linarith
  then have "\<bar>round_even y - n\<bar> < 1"
    by (metis of_int_diff of_int_abs of_int_less_1_iff)
  then show ?thesis by linarith
qed

lemma round_double_error:
  "\<bar>round_double x - x\<bar> \<le> \<bar>x\<bar> / 2 ^ 53"
proof (cases "x = 0")
  case True
  then show ?thesis by (simp add: round_double_def)
next
  case False
  define e where "e = \<lfloor>log 2 \<bar>x\<bar>\<rfloor> - 52"
  define s :: real where "s = 2 powr of_int e"
  have s: "0 < s" by (simp add: s_def)
  have fl: "round_double x = of_int (round_even (x / s)) * s"
    using False by (simp add: round_double_def e_def s_def Let_def)
  have "\<bar>round_double x - x\<bar> = \<bar>of_int (round_even (x / s)) - x / s\<bar> * s"
  proof -
    have "round_double x - x = (of_int (round_even (x / s)) - x / s) * s"
      using s by (simp add: fl field_simps)
    then show ?thesis using s by (simp add: abs_mult)
  qed
  also have "\<dots> \<le> 1 / 2 * s"
    using round_even_error [of "x / s"] s by (intro mult_right_mono) simp_all
  also have "s \<le> \<bar>x\<bar> / 2 ^ 52"
  proof -
    have "s = 2 powr of_int \<lfloor>log 2 \<bar>x\<bar>\<rfloor> * 2 powr (- 52)"
      by (simp add: s_def e_def powr_diff powr_minus field_simps)
    also have "2 powr of_int \<lfloor>log 2 \<bar>x\<bar>\<rfloor> \<le> 2 powr log 2 \<bar>x\<bar>"
      by (intro powr_mono) simp_all
    also have "2 powr log 2 \<bar>x\<bar> = \<bar>x\<bar>"
      using False by simp
    also have "(2::real) powr (- 52) = 1 / 2 ^ 52"
      by (simp add: powr_minus powr_realpow field_simps)
    finally show ?thesis by simp
  qed
  finally show ?thesis by simp
qed

lemma round_double_bounds:
  assumes "0 \<le> x"
  shows "(1 - 1 / 2 ^ 53) * x \<le> round_double x" and "round_double x \<le> (1 + 1 / 2 ^ 53) * x"
proof -
  define u where "u = x / 2 ^ 53"
  have "\<bar>round_double x - x\<bar> \<le> u"
    using round_double_error [of x] assms by (simp add: u_def)
  then have "x - u \<le> round_double x" "round_double x \<le> x + u"
    by linarith+
  moreover have "x - u = (1 - 1 / 2 ^ 53) * x" "x + u = (1 + 1 / 2 ^ 53) * x"
    by (simp_all add: u_def algebra_simps)
  ultimately show "(1 - 1 / 2 ^ 53) * x \<le> round_double x"
    and "round_double x \<le> (1 + 1 / 2 ^ 53) * x"
    by simp_all
qed

lemma round_double_nonneg: "0 \<le> x \<Longrightarrow> 0 \<le> round_double x"
proof -
  assume x: "0 \<le> x"
  have "0 \<le> (1 - 1 / 2 ^ 53) * x"
    using x by (intro mult_nonneg_nonneg) simp_all
  then show ?thesis
    using round_double_bounds(1) [OF x] by linarith
qed

lemma round_double_eq_0_iff: "round_double x = 0 \<longleftrightarrow> x = 0"
proof
  assume z: "round_double x = 0"
  define u where "u = \<bar>x\<bar> / 2 ^ 53"
  have "\<bar>x\<bar> \<le> u"
    using round_double_error [of x] z by (simp add: u_def)
  moreover have "u * 2 ^ 53 = \<bar>x\<bar>" by (simp add: u_def)
  ultimately show "x = 0" by simp
qed (simp add: round_double_def)

lemma floor_log2_eq:
  fixes x :: real
  assumes "2 ^ k \<le> x" and "x < 2 ^ Suc k"
  shows "\<lfloor>log 2 x\<rfloor> = int k"
proof -
  have "(0::real) < 2 ^ k" by simp
  then have p: "0 < x" using assms(1) by linarith
  have "real k \<le> log 2 x"
    using assms(1) p by (simp add: le_log_iff powr_realpow)
  moreover have "log 2 x < real k + 1"
    using assms(2) p by (simp add: log_less_iff powr_realpow powr_add)
  ultimately show ?thesis
    by (simp add: floor_unique)
qed

lemma round_double_eval:
  fixes x :: real
  assumes "2 ^ k \<le> x" and "x < 2 ^ Suc k" and "k \<le> 52"
    and "of_int n - 1 / 2 < x * 2 ^ (52 - k)" and "x * 2 ^ (52 - k) < of_int n + 1 / 2"
  shows "round_double x = of_int n / 2 ^ (52 - k)"
proof -
  have "(0::real) < 2 ^ k" by simp
  then have p: "0 < x" using assms(1) by linarith
  have a: "\<bar>x\<bar> = x" and n: "x \<noteq> 0" using p by simp_all
  have e: "\<lfloor>log 2 x\<rfloor> - 52 = - int (52 - k)"
    using floor_log2_eq [OF assms(1,2)] assms(3) by simp
  have s: "(2::real) powr of_int (- int (52 - k)) = 1 / 2 ^ (52 - k)"
    by (simp add: powr_minus powr_realpow field_simps)
  have r: "round_even (x / (1 / 2 ^ (52 - k))) = n"
    using assms(4,5) by (intro round_even_unique) simp_all
  have "round_double x = of_int (round_even (x / 2 powr of_int (\<lfloor>log 2 x\<rfloor> - 52)))
                          * 2 powr of_int (\<lfloor>log 2 x\<rfloor> - 52)"
    using n by (simp only: round_double_def Let_def a if_False)
  also have "\<dots> = of_int n * (1 / 2 ^ (52 - k))"
    by (simp only: e s r)
  finally show ?thesis by simp
qed

lemma fl_sqrt_2: "round_double (sqrt 2) = 6369051672525773 / 2 ^ 52"
proof -
  have lo: "(6369051672525773 - 1 / 2) / 2 ^ 52 < sqrt 2"
    by (rule real_less_rsqrt) (simp add: power2_eq_square)
  have hi: "sqrt 2 < (6369051672525773 + 1 / 2) / 2 ^ 52"
    by (rule real_less_lsqrt) (simp_all add: power2_eq_square)
  have "round_double (sqrt 2) = of_int 6369051672525773 / 2 ^ (52 - 0)"
  proof (rule round_double_eval)
    show "2 ^ 0 \<le> sqrt 2" by simp
    show "sqrt 2 < 2 ^ Suc 0" by (rule real_less_lsqrt) simp_all
    show "(0::nat) \<le> 52" by simp
    show "of_int 6369051672525773 - 1 / 2 < sqrt 2 * 2 ^ (52 - 0)"
      using lo by (simp add: field_simps)
    show "sqrt 2 * 2 ^ (52 - 0) < of_int 6369051672525773 + 1 / 2"
      using hi by (simp add: field_simps)
  qed
  then show ?thesis by simp
qed

lemma fl_sqrt_18: "round_double (sqrt 18) = 4776788754394329 / 2 ^ 50"
proof -
  have lo: "(4776788754394329 - 1 / 2) / 2 ^ 50 < sqrt 18"
    by (rule real_less_rsqrt) (simp add: power2_eq_square)
  have hi: "sqrt 18 < (4776788754394329 + 1 / 2) / 2 ^ 50"
    by (rule real_less_lsqrt) (simp_all add: power2_eq_square)
  have "round_double (sqrt 18) = of_int 4776788754394329 / 2 ^ (52 - 2)"
  proof (rule round_double_eval)
    show "2 ^ 2 \<le> sqrt 18" by (rule real_le_rsqrt) simp
    show "sqrt 18 < 2 ^ Suc 2" by (rule real_less_lsqrt) simp_all
    show "(2::nat) \<le> 52" by simp
    show "of_int 4776788754394329 - 1 / 2 < sqrt 18 * 2 ^ (52 - 2)"
      using lo by (simp add: field_simps)
    show "sqrt 18 * 2 ^ (52 - 2) < of_int 4776788754394329 + 1 / 2"
      using hi by (simp add: field_simps)
  qed
  then show ?thesis by simp
qed

lemma fl_sqrt_32: "round_double (sqrt 32) = 6369051672525773 / 2 ^ 50"
proof -
  have lo: "(6369051672525773 - 1 / 2) / 2 ^ 50 < sqrt 32"
    by (rule real_less_rsqrt) (simp add: power2_eq_square)
  have hi: "sqrt 32 < (6369051672525773 + 1 / 2) / 2 ^ 50"
    by (rule real_less_lsqrt) (simp_all add: power2_eq_square)
  have "round_double (sqrt 32) = of_int 6369051672525773 / 2 ^ (52 - 2)"
  proof (rule round_double_eval)
    show "2 ^ 2 \<le> sqrt 32" by (rule real_le_rsqrt) simp
    show "sqrt 32 < 2 ^ Suc 2" by (rule real_less_lsqrt) simp_all
    show "(2::nat) \<le> 52" by simp
    show "of_int 6369051672525773 - 1 / 2 < sqrt 32 * 2 ^ (52 - 2)"
      using lo by (simp add: field_simps)
    show "sqrt 32 * 2 ^ (52 - 2) < of_int 6369051672525773 + 1 / 2"
      using hi by (simp add: field_simps)
  qed
  then show ?thesis by simp
qed

subsection \<open>RGB distance\<close>

lemma rgbDistance_eq:
  "rgbDistance a b =
     round_double (sqrt ((rgb_r (rgb a) - rgb_r (rgb b))\<^sup>2 + (rgb_g (rgb a) - rgb_g (rgb b))\<^sup>2
                         + (rgb_b (rgb a) - rgb_b (rgb b))\<^sup>2))"
  by (simp add: rgbDistance_def Math_sqrt_def pow2_def Let_def power2_eq_square)

lemma sqrt3_triangle:
  fixes x1 y1 z1 x2 y2 z2 :: real
  shows "sqrt ((x1 + x2)\<^sup>2 + (y1 + y2)\<^sup>2 + (z1 + z2)\<^sup>2)
         \<le> sqrt (x1\<^sup>2 + y1\<^sup>2 + z1\<^sup>2) + sqrt (x2\<^sup>2 + y2\<^sup>2 + z2\<^sup>2)"
proof -
  let ?u = "sqrt (x1\<^sup>2 + y1\<^sup>2)" and ?w = "sqrt (x2\<^sup>2 + y2\<^sup>2)"
  have plane: "sqrt ((x1 + x2)\<^sup>2 + (y1 + y2)\<^sup>2) \<le> ?u + ?w"
    by (rule real_sqrt_sum_squares_triangle_ineq)
  have "(x1 + x2)\<^sup>2 + (y1 + y2)\<^sup>2 = (sqrt ((x1 + x2)\<^sup>2 + (y1 + y2)\<^sup>2))\<^sup>2"
    by simp
  also have "\<dots> \<le> (?u + ?w)\<^sup>2"
    using plane by (intro power_mono) simp_all
  finally have "sqrt ((x1 + x2)\<^sup>2 + (y1 + y2)\<^sup>2 + (z1 + z2)\<^sup>2)
                \<le> sqrt ((?u + ?w)\<^sup>2 + (z1 + z2)\<^sup>2)"
    by simp
  also have "\<dots> \<le> sqrt (?u\<^sup>2 + z1\<^sup>2) + sqrt (?w\<^sup>2 + z2\<^sup>2)"
    by (rule real_sqrt_sum_squares_triangle_ineq)
  finally show ?thesis by simp
qed

lemma sum3_squares_zero:
  fixes x y z :: real
  shows "x\<^sup>2 + y\<^sup>2 + z\<^sup>2 = 0 \<longleftrightarrow> x = 0 \<and> y = 0 \<and> z = 0"
proof
  assume h: "x\<^sup>2 + y\<^sup>2 + z\<^sup>2 = 0"
  have "0 \<le> x\<^sup>2" "0 \<le> y\<^sup>2" "0 \<le> z\<^sup>2" by simp_all
  with h have "x\<^sup>2 = 0" "y\<^sup>2 = 0" "z\<^sup>2 = 0" by linarith+
  then show "x = 0 \<and> y = 0 \<and> z = 0" by simp
qed simp

lemma rounded_triangle:
  fixes x y z :: real
  assumes "0 \<le> x" "0 \<le> y" "0 \<le> z" "z \<le> x + y"
  shows "round_double z \<le> (1 + 1 / 2 ^ 51) * (round_double x + round_double y)"
proof -
  have "round_double z \<le> (1 + 1 / 2 ^ 53) * z"
    by (rule round_double_bounds(2) [OF assms(3)])
  also have "\<dots> \<le> (1 + 1 / 2 ^ 53) * (x + y)"
    using assms(4) by (intro mult_left_mono) simp_all
  also have "\<dots> \<le> ((1 + 1 / 2 ^ 51) * (1 - 1 / 2 ^ 53)) * (x + y)"
    using assms(1,2) by (intro mult_right_mono) simp_all
  also have "\<dots> = (1 + 1 / 2 ^ 51) * ((1 - 1 / 2 ^ 53) * x + (1 - 1 / 2 ^ 53) * y)"
    by (simp only: distrib_left mult.assoc)
  also have "\<dots> \<le> (1 + 1 / 2 ^ 51) * (round_double x + round_double y)"
    using round_double_bounds(1) [OF assms(1)] round_double_bounds(1) [OF assms(2)]
    by (intro mult_left_mono add_mono) simp_all
  finally show ?thesis .
qed

text \<open>
  C9, as amended. For samples whose RGB channels are integers from \<open>0\<close> to \<open>255\<close>,
  \<open>rgbDistance\<close> is the Euclidean distance of the two RGB triples as \<^verbatim>\<open>Math.sqrt\<close>
  returns it, the double nearest to the square root. It is symmetric, never negative and
  zero exactly when the two triples are equal. The triangle inequality holds up to a
  relative error of \<open>2^-51\<close>.
\<close>

theorem rgbDistance_rounded_metric:
  assumes "valid_rgb (rgb a)" and "valid_rgb (rgb b)" and "valid_rgb (rgb c)"
  shows "rgbDistance a b =
           round_double (sqrt ((rgb_r (rgb a) - rgb_r (rgb b))\<^sup>2
                               + (rgb_g (rgb a) - rgb_g (rgb b))\<^sup>2
                               + (rgb_b (rgb a) - rgb_b (rgb b))\<^sup>2))
         \<and> rgbDistance a b = rgbDistance b a
         \<and> 0 \<le> rgbDistance a b
         \<and> (rgbDistance a b = 0 \<longleftrightarrow> rgb a = rgb b)
         \<and> rgbDistance a c \<le> (1 + 1 / 2 ^ 51) * (rgbDistance a b + rgbDistance b c)"
proof (intro conjI)
  show "rgbDistance a b =
          round_double (sqrt ((rgb_r (rgb a) - rgb_r (rgb b))\<^sup>2
                              + (rgb_g (rgb a) - rgb_g (rgb b))\<^sup>2
                              + (rgb_b (rgb a) - rgb_b (rgb b))\<^sup>2))"
    by (rule rgbDistance_eq)
  show "rgbDistance a b = rgbDistance b a"
    by (simp add: rgbDistance_eq power2_commute)
  show "0 \<le> rgbDistance a b"
    unfolding rgbDistance_eq by (rule round_double_nonneg) simp
  show "rgbDistance a b = 0 \<longleftrightarrow> rgb a = rgb b"
    by (cases "rgb a"; cases "rgb b")
      (simp add: rgbDistance_eq round_double_eq_0_iff sum3_squares_zero)
  show "rgbDistance a c \<le> (1 + 1 / 2 ^ 51) * (rgbDistance a b + rgbDistance b c)"
    unfolding rgbDistance_eq
  proof (rule rounded_triangle)
    show "sqrt ((rgb_r (rgb a) - rgb_r (rgb c))\<^sup>2 + (rgb_g (rgb a) - rgb_g (rgb c))\<^sup>2
                + (rgb_b (rgb a) - rgb_b (rgb c))\<^sup>2)
          \<le> sqrt ((rgb_r (rgb a) - rgb_r (rgb b))\<^sup>2 + (rgb_g (rgb a) - rgb_g (rgb b))\<^sup>2
                   + (rgb_b (rgb a) - rgb_b (rgb b))\<^sup>2)
            + sqrt ((rgb_r (rgb b) - rgb_r (rgb c))\<^sup>2 + (rgb_g (rgb b) - rgb_g (rgb c))\<^sup>2
                    + (rgb_b (rgb b) - rgb_b (rgb c))\<^sup>2)"
      using sqrt3_triangle [of "rgb_r (rgb a) - rgb_r (rgb b)" "rgb_r (rgb b) - rgb_r (rgb c)"
          "rgb_g (rgb a) - rgb_g (rgb b)" "rgb_g (rgb b) - rgb_g (rgb c)"
          "rgb_b (rgb a) - rgb_b (rgb b)" "rgb_b (rgb b) - rgb_b (rgb c)"]
      by simp
  qed simp_all
qed

lemma valid_rgb_samples:
  "valid_rgb (rgb black)" "valid_rgb (rgb white)"
  "valid_rgb (rgb color_000101)" "valid_rgb (rgb color_000404)"
  by (simp_all add: valid_rgb_def black_def white_def color_000101_def color_000404_def)

lemma rgbDistance_samples:
  "rgbDistance black color_000101 = 6369051672525773 / 2 ^ 52"
  "rgbDistance color_000101 color_000404 = 4776788754394329 / 2 ^ 50"
  "rgbDistance black color_000404 = 6369051672525773 / 2 ^ 50"
proof -
  have "rgbDistance black color_000101 = round_double (sqrt 2)"
    by (simp add: rgbDistance_eq black_def color_000101_def)
  then show "rgbDistance black color_000101 = 6369051672525773 / 2 ^ 52"
    by (simp only: fl_sqrt_2)
  have "rgbDistance color_000101 color_000404 = round_double (sqrt 18)"
    by (simp add: rgbDistance_eq color_000101_def color_000404_def)
  then show "rgbDistance color_000101 color_000404 = 4776788754394329 / 2 ^ 50"
    by (simp only: fl_sqrt_18)
  have "rgbDistance black color_000404 = round_double (sqrt 32)"
    by (simp add: rgbDistance_eq black_def color_000404_def)
  then show "rgbDistance black color_000404 = 6369051672525773 / 2 ^ 50"
    by (simp only: fl_sqrt_32)
qed

lemma rounded_sum_sample:
  "round_double (6369051672525773 / 2 ^ 52 + 4776788754394329 / 2 ^ 50)
     = 6369051672525772 / 2 ^ 50"
proof -
  have "round_double (6369051672525773 / 2 ^ 52 + 4776788754394329 / 2 ^ 50)
          = of_int 6369051672525772 / 2 ^ (52 - 2)"
    by (rule round_double_eval) simp_all
  then show ?thesis by simp
qed

theorem rgbDistance_rounded_metric_witness:
  "valid_rgb (rgb black) \<and> valid_rgb (rgb color_000101) \<and> valid_rgb (rgb color_000404)
   \<and> rgbDistance black color_000101 = rgbDistance color_000101 black
   \<and> 0 \<le> rgbDistance black color_000101
   \<and> rgbDistance black color_000101 \<noteq> 0
   \<and> rgbDistance black color_000404
       \<le> (1 + 1 / 2 ^ 51) * (rgbDistance black color_000101
                                + rgbDistance color_000101 color_000404)"
  using rgbDistance_rounded_metric [OF valid_rgb_samples(1) valid_rgb_samples(3)
      valid_rgb_samples(4)] valid_rgb_samples
  by (simp add: black_def color_000101_def)

text \<open>
  C9 as stated fails: for the colours \<^verbatim>\<open>#000000\<close>, \<^verbatim>\<open>#000101\<close> and \<^verbatim>\<open>#000404\<close>, which
  lie on one line, the distance from the first to the third is one unit in the last place
  greater than the sum of the other two distances, whether that sum is taken exactly or
  rounded to a double as JavaScript adds.
\<close>

theorem rgbDistance_triangle_counterexample:
  "valid_rgb (rgb black) \<and> valid_rgb (rgb color_000101) \<and> valid_rgb (rgb color_000404)
   \<and> rgbDistance black color_000101 + rgbDistance color_000101 color_000404
       < rgbDistance black color_000404
   \<and> round_double (rgbDistance black color_000101 + rgbDistance color_000101 color_000404)
       < rgbDistance black color_000404"
proof -
  have "rgbDistance black color_000101 + rgbDistance color_000101 color_000404
          < rgbDistance black color_000404"
    by (simp add: rgbDistance_samples)
  moreover have "round_double (rgbDistance black color_000101
                   + rgbDistance color_000101 color_000404)
                 < rgbDistance black color_000404"
    by (simp only: rgbDistance_samples rounded_sum_sample) simp
  ultimately show ?thesis
    using valid_rgb_samples by (intro conjI)
qed

subsection \<open>HSV distance\<close>

text \<open>
  C10. \<open>hsvDistance\<close> returns \<open>0\<close> for every two samples: both of its operands are the
  first sample's HSV triple, so the second argument is never read.
\<close>

theorem hsvDistance_zero: "hsvDistance a b = 0"
  by (simp add: hsvDistance_def pow2_def Let_def)

theorem hsvDistance_zero_witness: "hsvDistance white black = 0"
  using hsvDistance_zero [of white black] by simp

text \<open>
  C6. The specification's HSV distance takes hue, saturation and value from the first and
  from the second sample. On black and white, whose values differ by \<open>100\<close>, that distance
  is \<open>100\<close>, and \<open>hsvDistance\<close> returns \<open>0\<close>.
\<close>

theorem hsvDistance_black_white:
  "hsvDistance black white = 0 \<and> hsvDistance_spec black white = 100"
proof
  show "hsvDistance black white = 0"
    by (simp add: hsvDistance_def pow2_def Let_def)
  have "hsvDistance_spec black white = sqrt (100\<^sup>2)"
    by (simp add: hsvDistance_spec_def black_def white_def Let_def)
  then show "hsvDistance_spec black white = 100"
    by simp
qed

subsection \<open>Dispatch\<close>

lemma distanceMethodMap_None:
  "alg \<notin> {''RGB'', ''HSV'', ''CIEDE2000''} \<Longrightarrow> map_of distanceMethodMap alg = None"
  by (simp add: distanceMethodMap_def AlgorithmTypes_CIEDE2000_def AlgorithmTypes_HSV_def
      AlgorithmTypes_RGB_def)

text \<open>
  C8, as amended. \<open>distance\<close> returns what \<open>rgbDistance\<close>, \<open>hsvDistance\<close> and
  \<open>ciede2kDistance\<close> return for the identifiers \<open>RGB\<close>, \<open>HSV\<close> and \<open>CIEDE2000\<close>; for every
  other identifier it throws a \<^verbatim>\<open>TypeError\<close> and returns no distance.
\<close>

theorem distance_dispatch:
  "distance cv a b ''RGB'' = Inr (rgbDistance a b)
   \<and> distance cv a b ''HSV'' = Inr (hsvDistance a b)
   \<and> distance cv a b ''CIEDE2000'' = Inr (ciede2kDistance cv a b)
   \<and> (alg \<notin> {''RGB'', ''HSV'', ''CIEDE2000''} \<longrightarrow> distance cv a b alg = Inl TypeError)"
proof (intro conjI impI)
  show "distance cv a b ''RGB'' = Inr (rgbDistance a b)"
    by (simp add: distance_def distanceMethodMap_def AlgorithmTypes_CIEDE2000_def
        AlgorithmTypes_HSV_def AlgorithmTypes_RGB_def Color_static_def)
  show "distance cv a b ''HSV'' = Inr (hsvDistance a b)"
    by (simp add: distance_def distanceMethodMap_def AlgorithmTypes_CIEDE2000_def
        AlgorithmTypes_HSV_def AlgorithmTypes_RGB_def Color_static_def)
  show "distance cv a b ''CIEDE2000'' = Inr (ciede2kDistance cv a b)"
    by (simp add: distance_def distanceMethodMap_def AlgorithmTypes_CIEDE2000_def
        AlgorithmTypes_HSV_def AlgorithmTypes_RGB_def Color_static_def)
next
  assume "alg \<notin> {''RGB'', ''HSV'', ''CIEDE2000''}"
  then show "distance cv a b alg = Inl TypeError"
    by (simp add: distance_def distanceMethodMap_None)
qed

theorem distance_dispatch_witness:
  "distance sample_convert black white ''RGB'' = Inr (rgbDistance black white)
   \<and> distance sample_convert black white ''HSV'' = Inr (hsvDistance black white)
   \<and> distance sample_convert black white ''CIEDE2000'' = Inr (ciede2kDistance sample_convert black white)
   \<and> ''rgb'' \<notin> {''RGB'', ''HSV'', ''CIEDE2000''}
   \<and> distance sample_convert black white ''rgb'' = Inl TypeError"
  using distance_dispatch [of sample_convert black white "''rgb''"] by simp

text \<open>
  C8 as stated fails: for the identifier \<open>LAB\<close> the error thrown is a \<^verbatim>\<open>TypeError\<close>, not
  an \<open>UnknownAlgorithmError\<close>.
\<close>

theorem distance_unknown_counterexample:
  "distance sample_convert black white ''LAB'' = Inl TypeError
   \<and> distance sample_convert black white ''LAB'' \<noteq> Inl (UnknownAlgorithmError ''LAB'')"
  by (simp add: distance_def distanceMethodMap_def AlgorithmTypes_CIEDE2000_def
      AlgorithmTypes_HSV_def AlgorithmTypes_RGB_def)

subsection \<open>Constructor\<close>

lemma normalizeHex_null: "normalizeHex ''null'' = None"
  by (simp add: normalizeHex_def HEX_test_def HEX_SHORT_test_def)

text \<open>
  C5, as amended. For every string that fails normalisation the constructor throws a
  \<^verbatim>\<open>TypeError\<close>, so the caller receives no object. Whenever the constructor returns, the
  object holds the input, its normalised form (not \<^verbatim>\<open>null\<close>), the RGB triple parsed
  from that form and the HSV triple converted from that RGB triple.
\<close>

theorem Color_constructor_invalid:
  "(normalizeHex s = None \<longrightarrow> Color_constructor cv s = Inl TypeError)
   \<and> (\<forall>c. Color_constructor cv s = Inr c \<longrightarrow>
         original c = s \<and> hex c = normalizeHex s \<and> hex c \<noteq> None
         \<and> parseHex cv (hex c) = Some (rgb c) \<and> rgbToHsv cv (Some (rgb c)) = Inr (hsv c))"
  by (auto simp: Color_constructor_def Let_def parseHex_def ToString_def normalizeHex_null
      rgbToHsv_def split: option.splits sum.splits prod.splits)

theorem Color_constructor_invalid_witness:
  "normalizeHex ''notacolor'' = None
   \<and> Color_constructor sample_convert ''notacolor'' = Inl TypeError
   \<and> Color_constructor sample_convert ''#fff'' = Inr (white\<lparr>original := ''#fff''\<rparr>)
   \<and> hex (white\<lparr>original := ''#fff''\<rparr>) = normalizeHex ''#fff''"
proof -
  have n: "normalizeHex ''notacolor'' = None"
    by (simp add: normalizeHex_def HEX_test_def HEX_SHORT_test_def)
  have c: "Color_constructor sample_convert ''#fff'' = Inr (white\<lparr>original := ''#fff''\<rparr>)"
    by (simp add: Color_constructor_def normalizeHex_def HEX_test_def HEX_SHORT_test_def
        slice_def hex_class_def parseHex_def ToString_def rgbToHsv_def sample_convert_def
        white_def)
  show ?thesis
    using Color_constructor_invalid [of "''notacolor''" sample_convert]
      Color_constructor_invalid [of "''#fff''" sample_convert] n c
    by simp
qed

text \<open>
  C5 as stated fails: for the input \<open>notacolor\<close> the error thrown is a \<^verbatim>\<open>TypeError\<close>,
  which carries no input string, not a \<open>ColorParseError\<close> naming the input.
\<close>

theorem Color_constructor_counterexample:
  "normalizeHex ''notacolor'' = None
   \<and> Color_constructor sample_convert ''notacolor'' = Inl TypeError
   \<and> Color_constructor sample_convert ''notacolor'' \<noteq> Inl (ColorParseError ''notacolor'')"
  by (simp add: Color_constructor_def normalizeHex_def HEX_test_def HEX_SHORT_test_def
      parseHex_def ToString_def rgbToHsv_def Let_def)


subsection \<open>CIEDE2000: the locals, one equation each\<close>

text \<open>
  Each local of \<open>ciede2k_run\<close> in terms of the locals bound before it, so that the proofs
  below never unfold the whole chain of bindings.
\<close>

lemma run_c1:
  "v_c1 (ciede2k_run l1 a1 b1 l2 a2 b2) =
     hypot a1 b1"
  unfolding ciede2k_run_def Let_def by (simp only: ciede2k_locals.select_convs)

lemma run_c2:
  "v_c2 (ciede2k_run l1 a1 b1 l2 a2 b2) =
     hypot a2 b2"
  unfolding ciede2k_run_def Let_def by (simp only: ciede2k_locals.select_convs)

lemma run_ac1c2:
  "v_ac1c2 (ciede2k_run l1 a1 b1 l2 a2 b2) =
     (v_c1 (ciede2k_run l1 a1 b1 l2 a2 b2) + v_c2 (ciede2k_run l1 a1 b1 l2 a2 b2)) / 2"
  unfolding ciede2k_run_def Let_def by (simp only: ciede2k_locals.select_convs)

lemma run_g:
  "v_g (ciede2k_run l1 a1 b1 l2 a2 b2) =
     0.5 * (1 - sqrt (pow7 (v_ac1c2 (ciede2k_run l1 a1 b1 l2 a2 b2)) / (pow7 (v_ac1c2 (ciede2k_run l1 a1 b1 l2 a2 b2)) + pow7 25)))"
  unfolding ciede2k_run_def Let_def by (simp only: ciede2k_locals.select_convs)

lemma run_a1p:
  "v_a1p (ciede2k_run l1 a1 b1 l2 a2 b2) =
     (1 + v_g (ciede2k_run l1 a1 b1 l2 a2 b2)) * a1"
  unfolding ciede2k_run_def Let_def by (simp only: ciede2k_locals.select_convs)

lemma run_a2p:
  "v_a2p (ciede2k_run l1 a1 b1 l2 a2 b2) =
     (1 + v_g (ciede2k_run l1 a1 b1 l2 a2 b2)) * a2"
  unfolding ciede2k_run_def Let_def by (simp only: ciede2k_locals.select_convs)

lemma run_c1p:
  "v_c1p (ciede2k_run l1 a1 b1 l2 a2 b2) =
     sqrt (pow2 (v_a1p (ciede2k_run l1 a1 b1 l2 a2 b2)) + pow2 b1)"
  unfolding ciede2k_run_def Let_def by (simp only: ciede2k_locals.select_convs)

lemma run_c2p:
  "v_c2p (ciede2k_run l1 a1 b1 l2 a2 b2) =
     sqrt (pow2 (v_a2p (ciede2k_run l1 a1 b1 l2 a2 b2)) + pow2 b2)"
  unfolding ciede2k_run_def Let_def by (simp only: ciede2k_locals.select_convs)

lemma run_h1pd:
  "v_h1pd (ciede2k_run l1 a1 b1 l2 a2 b2) =
     degrees (atan2 b1 (v_a1p (ciede2k_run l1 a1 b1 l2 a2 b2)))"
  unfolding ciede2k_run_def Let_def by (simp only: ciede2k_locals.select_convs)

lemma run_h1p:
  "v_h1p (ciede2k_run l1 a1 b1 l2 a2 b2) =
     (if b1 = 0 \<and> v_a1p (ciede2k_run l1 a1 b1 l2 a2 b2) = 0 then 0 else if v_h1pd (ciede2k_run l1 a1 b1 l2 a2 b2) > 0 then v_h1pd (ciede2k_run l1 a1 b1 l2 a2 b2) else v_h1pd (ciede2k_run l1 a1 b1 l2 a2 b2) + 360)"
  unfolding ciede2k_run_def Let_def by (simp only: ciede2k_locals.select_convs)

lemma run_h2pd:
  "v_h2pd (ciede2k_run l1 a1 b1 l2 a2 b2) =
     degrees (atan2 b2 (v_a2p (ciede2k_run l1 a1 b1 l2 a2 b2)))"
  unfolding ciede2k_run_def Let_def by (simp only: ciede2k_locals.select_convs)

lemma run_h2p:
  "v_h2p (ciede2k_run l1 a1 b1 l2 a2 b2) =
     (if b2 = 0 \<and> v_a2p (ciede2k_run l1 a1 b1 l2 a2 b2) = 0 then 0 else if v_h2pd (ciede2k_run l1 a1 b1 l2 a2 b2) > 0 then v_h2pd (ciede2k_run l1 a1 b1 l2 a2 b2) else v_h2pd (ciede2k_run l1 a1 b1 l2 a2 b2) + 360)"
  unfolding ciede2k_run_def Let_def by (simp only: ciede2k_locals.select_convs)

lemma run_dlp:
  "v_dlp (ciede2k_run l1 a1 b1 l2 a2 b2) =
     l2 - l1"
  unfolding ciede2k_run_def Let_def by (simp only: ciede2k_locals.select_convs)

lemma run_dcp:
  "v_dcp (ciede2k_run l1 a1 b1 l2 a2 b2) =
     v_c2p (ciede2k_run l1 a1 b1 l2 a2 b2) - v_c1p (ciede2k_run l1 a1 b1 l2 a2 b2)"
  unfolding ciede2k_run_def Let_def by (simp only: ciede2k_locals.select_convs)

lemma run_dhp:
  "v_dhp (ciede2k_run l1 a1 b1 l2 a2 b2) =
     2 * sqrt (v_c1p (ciede2k_run l1 a1 b1 l2 a2 b2) * v_c2p (ciede2k_run l1 a1 b1 l2 a2 b2))
       * sin (radians (if v_c1 (ciede2k_run l1 a1 b1 l2 a2 b2) * v_c2 (ciede2k_run l1 a1 b1 l2 a2 b2) = 0 then 0
                       else if \<bar>v_h2p (ciede2k_run l1 a1 b1 l2 a2 b2) - v_h1p (ciede2k_run l1 a1 b1 l2 a2 b2)\<bar> \<le> 180 then v_h2p (ciede2k_run l1 a1 b1 l2 a2 b2) - v_h1p (ciede2k_run l1 a1 b1 l2 a2 b2)
                       else if (v_h2p (ciede2k_run l1 a1 b1 l2 a2 b2) - v_h1p (ciede2k_run l1 a1 b1 l2 a2 b2)) > 180 then (v_h2p (ciede2k_run l1 a1 b1 l2 a2 b2) - v_h1p (ciede2k_run l1 a1 b1 l2 a2 b2)) - 360
                       else (v_h2p (ciede2k_run l1 a1 b1 l2 a2 b2) - v_h1p (ciede2k_run l1 a1 b1 l2 a2 b2)) + 360) / 2)"
  unfolding ciede2k_run_def Let_def by (simp only: ciede2k_locals.select_convs)

lemma run_al:
  "v_al (ciede2k_run l1 a1 b1 l2 a2 b2) =
     (l1 + l2) / 2"
  unfolding ciede2k_run_def Let_def by (simp only: ciede2k_locals.select_convs)

lemma run_acp:
  "v_acp (ciede2k_run l1 a1 b1 l2 a2 b2) =
     (v_c1p (ciede2k_run l1 a1 b1 l2 a2 b2) + v_c2p (ciede2k_run l1 a1 b1 l2 a2 b2)) / 2"
  unfolding ciede2k_run_def Let_def by (simp only: ciede2k_locals.select_convs)

lemma run_ahp:
  "v_ahp (ciede2k_run l1 a1 b1 l2 a2 b2) =
     (if v_c1 (ciede2k_run l1 a1 b1 l2 a2 b2) * v_c2 (ciede2k_run l1 a1 b1 l2 a2 b2) = 0 then v_h1p (ciede2k_run l1 a1 b1 l2 a2 b2) + v_h2p (ciede2k_run l1 a1 b1 l2 a2 b2)
      else if \<bar>v_h1p (ciede2k_run l1 a1 b1 l2 a2 b2) - v_h2p (ciede2k_run l1 a1 b1 l2 a2 b2)\<bar> \<le> 180 then (v_h1p (ciede2k_run l1 a1 b1 l2 a2 b2) + v_h2p (ciede2k_run l1 a1 b1 l2 a2 b2)) / 2
      else if \<bar>v_h1p (ciede2k_run l1 a1 b1 l2 a2 b2) - v_h2p (ciede2k_run l1 a1 b1 l2 a2 b2)\<bar> > 180 \<and> v_h1p (ciede2k_run l1 a1 b1 l2 a2 b2) + v_h2p (ciede2k_run l1 a1 b1 l2 a2 b2) < 360 then (v_h1p (ciede2k_run l1 a1 b1 l2 a2 b2) + v_h2p (ciede2k_run l1 a1 b1 l2 a2 b2) + 360) / 2
      else (v_h1p (ciede2k_run l1 a1 b1 l2 a2 b2) + v_h2p (ciede2k_run l1 a1 b1 l2 a2 b2) - 360) / 2)"
  unfolding ciede2k_run_def Let_def by (simp only: ciede2k_locals.select_convs)

lemma run_t:
  "v_t (ciede2k_run l1 a1 b1 l2 a2 b2) =
     1 - 0.17 * cos (radians (v_ahp (ciede2k_run l1 a1 b1 l2 a2 b2) - 30)) + 0.24 * cos (radians (2 * v_ahp (ciede2k_run l1 a1 b1 l2 a2 b2)))
      + 0.32 * cos (radians (3 * v_ahp (ciede2k_run l1 a1 b1 l2 a2 b2) + 6)) - 0.20 * cos (radians (4 * v_ahp (ciede2k_run l1 a1 b1 l2 a2 b2) - 63))"
  unfolding ciede2k_run_def Let_def by (simp only: ciede2k_locals.select_convs)

lemma run_dro:
  "v_dro (ciede2k_run l1 a1 b1 l2 a2 b2) =
     30 * exp (- (pow2 ((v_ahp (ciede2k_run l1 a1 b1 l2 a2 b2) - 275) / 25)))"
  unfolding ciede2k_run_def Let_def by (simp only: ciede2k_locals.select_convs)

lemma run_rc:
  "v_rc (ciede2k_run l1 a1 b1 l2 a2 b2) =
     sqrt (pow7 (v_acp (ciede2k_run l1 a1 b1 l2 a2 b2)) / (pow7 (v_acp (ciede2k_run l1 a1 b1 l2 a2 b2)) + pow7 25))"
  unfolding ciede2k_run_def Let_def by (simp only: ciede2k_locals.select_convs)

lemma run_sl:
  "v_sl (ciede2k_run l1 a1 b1 l2 a2 b2) =
     1 + ((0.015 * pow2 (v_al (ciede2k_run l1 a1 b1 l2 a2 b2) - 50)) / sqrt (20 + pow2 (v_al (ciede2k_run l1 a1 b1 l2 a2 b2) - 50)))"
  unfolding ciede2k_run_def Let_def by (simp only: ciede2k_locals.select_convs)

lemma run_sc:
  "v_sc (ciede2k_run l1 a1 b1 l2 a2 b2) =
     1 + 0.045 * v_acp (ciede2k_run l1 a1 b1 l2 a2 b2)"
  unfolding ciede2k_run_def Let_def by (simp only: ciede2k_locals.select_convs)

lemma run_sh:
  "v_sh (ciede2k_run l1 a1 b1 l2 a2 b2) =
     1 + 0.015 * v_acp (ciede2k_run l1 a1 b1 l2 a2 b2) * v_t (ciede2k_run l1 a1 b1 l2 a2 b2)"
  unfolding ciede2k_run_def Let_def by (simp only: ciede2k_locals.select_convs)

lemma run_rt:
  "v_rt (ciede2k_run l1 a1 b1 l2 a2 b2) =
     -2 * v_rc (ciede2k_run l1 a1 b1 l2 a2 b2) * sin (radians (2 * v_dro (ciede2k_run l1 a1 b1 l2 a2 b2)))"
  unfolding ciede2k_run_def Let_def by (simp only: ciede2k_locals.select_convs)

lemma run_under:
  "v_under (ciede2k_run l1 a1 b1 l2 a2 b2) =
     pow2 (v_dlp (ciede2k_run l1 a1 b1 l2 a2 b2) / (v_sl (ciede2k_run l1 a1 b1 l2 a2 b2) * 1))
     + pow2 (v_dcp (ciede2k_run l1 a1 b1 l2 a2 b2) / (v_sc (ciede2k_run l1 a1 b1 l2 a2 b2) * 1))
     + pow2 (v_dhp (ciede2k_run l1 a1 b1 l2 a2 b2) / (v_sh (ciede2k_run l1 a1 b1 l2 a2 b2) * 1))
     + v_rt (ciede2k_run l1 a1 b1 l2 a2 b2)
       * (v_dcp (ciede2k_run l1 a1 b1 l2 a2 b2) / (v_sc (ciede2k_run l1 a1 b1 l2 a2 b2) * 1))
       * (v_dhp (ciede2k_run l1 a1 b1 l2 a2 b2) / (v_sh (ciede2k_run l1 a1 b1 l2 a2 b2) * 1))"
  unfolding ciede2k_run_def Let_def by (simp only: ciede2k_locals.select_convs)

lemma run_ret:
  "v_ret (ciede2k_run l1 a1 b1 l2 a2 b2) =
     sqrt (v_under (ciede2k_run l1 a1 b1 l2 a2 b2))"
  unfolding ciede2k_run_def Let_def by (simp only: ciede2k_locals.select_convs)

subsection \<open>Arithmetic of the helpers\<close>

lemma pow7_nonneg: "0 \<le> x \<Longrightarrow> 0 \<le> pow7 x"
  by (simp add: pow7_def)

lemma pow7_25_pos: "0 < pow7 25"
  by (simp add: pow7_def)

lemma ratio_unit:
  fixes p q :: real
  assumes "0 \<le> p" and "0 < q"
  shows "0 \<le> p / (p + q)" and "p / (p + q) < 1"
  using assms by (simp_all add: divide_simps)

lemma sqrt_ratio_unit:
  fixes p q :: real
  assumes "0 \<le> p" and "0 < q"
  shows "0 \<le> sqrt (p / (p + q))" and "sqrt (p / (p + q)) < 1"
  using ratio_unit [OF assms] by simp_all

lemma hypot_nonneg: "0 \<le> hypot x y"
  by (simp add: hypot_def)


lemma radians_minus: "radians (- x) = - radians x"
  by (simp add: radians_def)



lemma degrees_eq_0_iff: "degrees x = 0 \<longleftrightarrow> x = 0"
  by (simp add: degrees_def)

lemma degrees_bounds:
  assumes "- pi < x" and "x \<le> pi"
  shows "- 180 < degrees x" and "degrees x \<le> 180"
proof -
  have k: "0 < 180 / pi" by simp
  have "- pi * (180 / pi) < x * (180 / pi)"
    using assms(1) k by (rule mult_strict_right_mono)
  moreover have "x * (180 / pi) \<le> pi * (180 / pi)"
    using assms(2) k by (intro mult_right_mono) simp_all
  moreover have "pi * (180 / pi) = 180" by simp
  ultimately show "- 180 < degrees x" and "degrees x \<le> 180"
    unfolding degrees_def by simp_all
qed

lemma atan2_bounds: "- pi < atan2 y x" "atan2 y x \<le> pi"
proof -
  have l: "- (pi / 2) < arctan (y / x)" by (rule arctan_lbound)
  have u: "arctan (y / x) < pi / 2" by (rule arctan_ubound)
  have neg: "x < 0 \<Longrightarrow> 0 \<le> y \<Longrightarrow> arctan (y / x) \<le> 0"
    by (simp add: arctan_le_zero_iff divide_nonneg_neg)
  have pos: "x < 0 \<Longrightarrow> y < 0 \<Longrightarrow> 0 < arctan (y / x)"
    by (simp add: zero_less_arctan_iff divide_neg_neg)
  show "- pi < atan2 y x"
    using l u neg pos pi_gt_zero by (auto simp: atan2_def)
  show "atan2 y x \<le> pi"
    using l u neg pos pi_gt_zero by (auto simp: atan2_def)
qed

lemma atan2_eq_0_iff: "atan2 y x = 0 \<longleftrightarrow> y = 0 \<and> 0 \<le> x"
proof -
  have l: "- (pi / 2) < arctan (y / x)" by (rule arctan_lbound)
  have u: "arctan (y / x) < pi / 2" by (rule arctan_ubound)
  show ?thesis
  proof (cases "0 < x")
    case True
    then show ?thesis by (simp add: atan2_def arctan_eq_zero_iff)
  next
    case False
    show ?thesis
    proof (cases "x < 0")
      case True
      then show ?thesis using l u pi_gt_zero by (auto simp: atan2_def)
    next
      case False
      with \<open>\<not> 0 < x\<close> have "x = 0" by simp
      then show ?thesis using pi_gt_zero by (auto simp: atan2_def)
    qed
  qed
qed

lemma t_expr_lower:
  fixes k1 k2 k3 k4 :: real
  assumes "k1 \<le> 1" "- 1 \<le> k2" "- 1 \<le> k3" "k4 \<le> 1"
  shows "7 / 100 \<le> 1 - 0.17 * k1 + 0.24 * k2 + 0.32 * k3 - 0.20 * k4"
  using assms by simp

lemma cross_term_bound:
  fixes x y z r :: real
  assumes "\<bar>r\<bar> \<le> 2"
  shows "0 \<le> pow2 x + pow2 y + pow2 z + r * y * z"
proof -
  have "\<bar>r * y * z\<bar> = \<bar>r\<bar> * (\<bar>y\<bar> * \<bar>z\<bar>)"
    by (simp add: abs_mult)
  also have "\<dots> \<le> 2 * (\<bar>y\<bar> * \<bar>z\<bar>)"
    using assms by (intro mult_right_mono) simp_all
  also have "\<dots> \<le> \<bar>y\<bar>\<^sup>2 + \<bar>z\<bar>\<^sup>2"
    using sum_squares_bound [of "\<bar>y\<bar>" "\<bar>z\<bar>"] by simp
  finally have "- (y * y + z * z) \<le> r * y * z"
    by (simp add: abs_le_iff power2_eq_square)
  moreover have "0 \<le> x * x" by simp
  ultimately show ?thesis
    unfolding pow2_def by linarith
qed

lemma hue_delta_swap:
  fixes p q :: real
  shows "(if P then 0 else if \<bar>p - q\<bar> \<le> 180 then p - q
          else if p - q > 180 then p - q - 360 else p - q + 360)
         = - (if P then 0 else if \<bar>q - p\<bar> \<le> 180 then q - p
              else if q - p > 180 then q - p - 360 else q - p + 360)"
  by auto

lemma mean_hue_swap:
  fixes p q c d :: real
  shows "(if d * c = 0 then q + p
          else if \<bar>q - p\<bar> \<le> 180 then (q + p) / 2
          else if \<bar>q - p\<bar> > 180 \<and> q + p < 360 then (q + p + 360) / 2
          else (q + p - 360) / 2)
         = (if c * d = 0 then p + q
            else if \<bar>p - q\<bar> \<le> 180 then (p + q) / 2
            else if \<bar>p - q\<bar> > 180 \<and> p + q < 360 then (p + q + 360) / 2
            else (p + q - 360) / 2)"
  by (simp add: add.commute mult.commute abs_minus_commute)


subsection \<open>CIEDE2000: signs and bounds of the locals\<close>

lemma c1_nonneg: "0 \<le> v_c1 (ciede2k_run l1 a1 b1 l2 a2 b2)"
  by (simp add: run_c1 hypot_nonneg)

lemma c2_nonneg: "0 \<le> v_c2 (ciede2k_run l1 a1 b1 l2 a2 b2)"
  by (simp add: run_c2 hypot_nonneg)

lemma ac1c2_nonneg: "0 \<le> v_ac1c2 (ciede2k_run l1 a1 b1 l2 a2 b2)"
  using c1_nonneg [of l1 a1 b1 l2 a2 b2] c2_nonneg [of l1 a1 b1 l2 a2 b2]
  by (simp add: run_ac1c2)

lemma g_bounds: "0 < v_g (ciede2k_run l1 a1 b1 l2 a2 b2)" "v_g (ciede2k_run l1 a1 b1 l2 a2 b2) \<le> 1 / 2"
  using sqrt_ratio_unit [OF pow7_nonneg [OF ac1c2_nonneg [of l1 a1 b1 l2 a2 b2]] pow7_25_pos]
  by (simp_all add: run_g)



lemma a1p_pos_iff: "0 < v_a1p (ciede2k_run l1 a1 b1 l2 a2 b2) \<longleftrightarrow> 0 < a1"
  using g_bounds(1) [of l1 a1 b1 l2 a2 b2] by (simp add: run_a1p zero_less_mult_iff)

lemma a2p_pos_iff: "0 < v_a2p (ciede2k_run l1 a1 b1 l2 a2 b2) \<longleftrightarrow> 0 < a2"
  using g_bounds(1) [of l1 a1 b1 l2 a2 b2] by (simp add: run_a2p zero_less_mult_iff)





lemma c1p_nonneg: "0 \<le> v_c1p (ciede2k_run l1 a1 b1 l2 a2 b2)"
  by (simp add: run_c1p pow2_def)

lemma c2p_nonneg: "0 \<le> v_c2p (ciede2k_run l1 a1 b1 l2 a2 b2)"
  by (simp add: run_c2p pow2_def)


lemma acp_nonneg: "0 \<le> v_acp (ciede2k_run l1 a1 b1 l2 a2 b2)"
  using c1p_nonneg [of l1 a1 b1 l2 a2 b2] c2p_nonneg [of l1 a1 b1 l2 a2 b2]
  by (simp add: run_acp)

lemma rc_bounds: "0 \<le> v_rc (ciede2k_run l1 a1 b1 l2 a2 b2)" "v_rc (ciede2k_run l1 a1 b1 l2 a2 b2) < 1"
  using sqrt_ratio_unit [OF pow7_nonneg [OF acp_nonneg [of l1 a1 b1 l2 a2 b2]] pow7_25_pos]
  by (simp_all add: run_rc)

lemma t_lower: "7 / 100 \<le> v_t (ciede2k_run l1 a1 b1 l2 a2 b2)"
  unfolding run_t by (rule t_expr_lower) simp_all

lemma sl_lower: "1 \<le> v_sl (ciede2k_run l1 a1 b1 l2 a2 b2)"
  by (simp add: run_sl pow2_def)

lemma sc_lower: "1 \<le> v_sc (ciede2k_run l1 a1 b1 l2 a2 b2)"
  using acp_nonneg [of l1 a1 b1 l2 a2 b2] by (simp add: run_sc)

lemma sh_lower: "1 \<le> v_sh (ciede2k_run l1 a1 b1 l2 a2 b2)"
proof -
  have "0 \<le> v_acp (ciede2k_run l1 a1 b1 l2 a2 b2) * v_t (ciede2k_run l1 a1 b1 l2 a2 b2)"
    using acp_nonneg [of l1 a1 b1 l2 a2 b2] t_lower [of l1 a1 b1 l2 a2 b2]
    by (intro mult_nonneg_nonneg) simp_all
  then show ?thesis by (simp add: run_sh)
qed

lemma rt_bound: "\<bar>v_rt (ciede2k_run l1 a1 b1 l2 a2 b2)\<bar> \<le> 2"
proof -
  have "\<bar>v_rt (ciede2k_run l1 a1 b1 l2 a2 b2)\<bar> = 2 * (\<bar>v_rc (ciede2k_run l1 a1 b1 l2 a2 b2)\<bar> * \<bar>sin (radians (2 * v_dro (ciede2k_run l1 a1 b1 l2 a2 b2)))\<bar>)"
    by (simp add: run_rt abs_mult)
  also have "\<bar>v_rc (ciede2k_run l1 a1 b1 l2 a2 b2)\<bar> * \<bar>sin (radians (2 * v_dro (ciede2k_run l1 a1 b1 l2 a2 b2)))\<bar> \<le> 1 * 1"
    using rc_bounds [of l1 a1 b1 l2 a2 b2] by (intro mult_mono) simp_all
  finally show ?thesis by simp
qed

lemma under_simp:
  "v_under (ciede2k_run l1 a1 b1 l2 a2 b2) =
     pow2 (v_dlp (ciede2k_run l1 a1 b1 l2 a2 b2) / v_sl (ciede2k_run l1 a1 b1 l2 a2 b2)) + pow2 (v_dcp (ciede2k_run l1 a1 b1 l2 a2 b2) / v_sc (ciede2k_run l1 a1 b1 l2 a2 b2)) + pow2 (v_dhp (ciede2k_run l1 a1 b1 l2 a2 b2) / v_sh (ciede2k_run l1 a1 b1 l2 a2 b2))
     + v_rt (ciede2k_run l1 a1 b1 l2 a2 b2) * (v_dcp (ciede2k_run l1 a1 b1 l2 a2 b2) / v_sc (ciede2k_run l1 a1 b1 l2 a2 b2)) * (v_dhp (ciede2k_run l1 a1 b1 l2 a2 b2) / v_sh (ciede2k_run l1 a1 b1 l2 a2 b2))"
  by (simp add: run_under)

lemma under_nonneg: "0 \<le> v_under (ciede2k_run l1 a1 b1 l2 a2 b2)"
  unfolding under_simp by (rule cross_term_bound [OF rt_bound])


subsection \<open>CIEDE2000: exchanging the two colours\<close>

lemma swap_c1: "v_c1 (ciede2k_run l2 a2 b2 l1 a1 b1) = v_c2 (ciede2k_run l1 a1 b1 l2 a2 b2)"
  by (simp only: run_c1 run_c2)

lemma swap_c2: "v_c2 (ciede2k_run l2 a2 b2 l1 a1 b1) = v_c1 (ciede2k_run l1 a1 b1 l2 a2 b2)"
  by (simp only: run_c1 run_c2)

lemma swap_ac1c2: "v_ac1c2 (ciede2k_run l2 a2 b2 l1 a1 b1) = v_ac1c2 (ciede2k_run l1 a1 b1 l2 a2 b2)"
  by (simp add: run_ac1c2 swap_c1 [of l2 a2 b2 l1 a1 b1] swap_c2 [of l2 a2 b2 l1 a1 b1])

lemma swap_g: "v_g (ciede2k_run l2 a2 b2 l1 a1 b1) = v_g (ciede2k_run l1 a1 b1 l2 a2 b2)"
  by (simp only: run_g swap_ac1c2 [of l2 a2 b2 l1 a1 b1])

lemma swap_a1p: "v_a1p (ciede2k_run l2 a2 b2 l1 a1 b1) = v_a2p (ciede2k_run l1 a1 b1 l2 a2 b2)"
  by (simp only: run_a1p run_a2p swap_g [of l2 a2 b2 l1 a1 b1])

lemma swap_a2p: "v_a2p (ciede2k_run l2 a2 b2 l1 a1 b1) = v_a1p (ciede2k_run l1 a1 b1 l2 a2 b2)"
  by (simp only: run_a1p run_a2p swap_g [of l2 a2 b2 l1 a1 b1])

lemma swap_c1p: "v_c1p (ciede2k_run l2 a2 b2 l1 a1 b1) = v_c2p (ciede2k_run l1 a1 b1 l2 a2 b2)"
  by (simp only: run_c1p run_c2p swap_a1p [of l2 a2 b2 l1 a1 b1])

lemma swap_c2p: "v_c2p (ciede2k_run l2 a2 b2 l1 a1 b1) = v_c1p (ciede2k_run l1 a1 b1 l2 a2 b2)"
  by (simp only: run_c1p run_c2p swap_a2p [of l2 a2 b2 l1 a1 b1])

lemma swap_h1pd: "v_h1pd (ciede2k_run l2 a2 b2 l1 a1 b1) = v_h2pd (ciede2k_run l1 a1 b1 l2 a2 b2)"
  by (simp only: run_h1pd run_h2pd swap_a1p [of l2 a2 b2 l1 a1 b1])

lemma swap_h2pd: "v_h2pd (ciede2k_run l2 a2 b2 l1 a1 b1) = v_h1pd (ciede2k_run l1 a1 b1 l2 a2 b2)"
  by (simp only: run_h1pd run_h2pd swap_a2p [of l2 a2 b2 l1 a1 b1])

lemma swap_h1p: "v_h1p (ciede2k_run l2 a2 b2 l1 a1 b1) = v_h2p (ciede2k_run l1 a1 b1 l2 a2 b2)"
  by (simp only: run_h1p run_h2p swap_h1pd [of l2 a2 b2 l1 a1 b1] swap_a1p [of l2 a2 b2 l1 a1 b1])

lemma swap_h2p: "v_h2p (ciede2k_run l2 a2 b2 l1 a1 b1) = v_h1p (ciede2k_run l1 a1 b1 l2 a2 b2)"
  by (simp only: run_h1p run_h2p swap_h2pd [of l2 a2 b2 l1 a1 b1] swap_a2p [of l2 a2 b2 l1 a1 b1])

lemma swap_dlp: "v_dlp (ciede2k_run l2 a2 b2 l1 a1 b1) = - v_dlp (ciede2k_run l1 a1 b1 l2 a2 b2)"
  by (simp add: run_dlp)

lemma swap_dcp: "v_dcp (ciede2k_run l2 a2 b2 l1 a1 b1) = - v_dcp (ciede2k_run l1 a1 b1 l2 a2 b2)"
  by (simp add: run_dcp swap_c1p [of l2 a2 b2 l1 a1 b1] swap_c2p [of l2 a2 b2 l1 a1 b1])

lemma swap_dhp: "v_dhp (ciede2k_run l2 a2 b2 l1 a1 b1) = - v_dhp (ciede2k_run l1 a1 b1 l2 a2 b2)"
proof -
  let ?d = "if v_c1 (ciede2k_run l1 a1 b1 l2 a2 b2) * v_c2 (ciede2k_run l1 a1 b1 l2 a2 b2) = 0 then 0
            else if \<bar>v_h2p (ciede2k_run l1 a1 b1 l2 a2 b2) - v_h1p (ciede2k_run l1 a1 b1 l2 a2 b2)\<bar> \<le> 180 then v_h2p (ciede2k_run l1 a1 b1 l2 a2 b2) - v_h1p (ciede2k_run l1 a1 b1 l2 a2 b2)
            else if v_h2p (ciede2k_run l1 a1 b1 l2 a2 b2) - v_h1p (ciede2k_run l1 a1 b1 l2 a2 b2) > 180 then v_h2p (ciede2k_run l1 a1 b1 l2 a2 b2) - v_h1p (ciede2k_run l1 a1 b1 l2 a2 b2) - 360
            else v_h2p (ciede2k_run l1 a1 b1 l2 a2 b2) - v_h1p (ciede2k_run l1 a1 b1 l2 a2 b2) + 360"
  have "v_dhp (ciede2k_run l2 a2 b2 l1 a1 b1) = 2 * sqrt (v_c2p (ciede2k_run l1 a1 b1 l2 a2 b2) * v_c1p (ciede2k_run l1 a1 b1 l2 a2 b2))
          * sin (radians (if v_c2 (ciede2k_run l1 a1 b1 l2 a2 b2) * v_c1 (ciede2k_run l1 a1 b1 l2 a2 b2) = 0 then 0
                          else if \<bar>v_h1p (ciede2k_run l1 a1 b1 l2 a2 b2) - v_h2p (ciede2k_run l1 a1 b1 l2 a2 b2)\<bar> \<le> 180 then v_h1p (ciede2k_run l1 a1 b1 l2 a2 b2) - v_h2p (ciede2k_run l1 a1 b1 l2 a2 b2)
                          else if v_h1p (ciede2k_run l1 a1 b1 l2 a2 b2) - v_h2p (ciede2k_run l1 a1 b1 l2 a2 b2) > 180 then v_h1p (ciede2k_run l1 a1 b1 l2 a2 b2) - v_h2p (ciede2k_run l1 a1 b1 l2 a2 b2) - 360
                          else v_h1p (ciede2k_run l1 a1 b1 l2 a2 b2) - v_h2p (ciede2k_run l1 a1 b1 l2 a2 b2) + 360) / 2)"
    by (simp only: run_dhp [of l2 a2 b2 l1 a1 b1] swap_c1 [of l2 a2 b2 l1 a1 b1] swap_c2 [of l2 a2 b2 l1 a1 b1] swap_c1p [of l2 a2 b2 l1 a1 b1] swap_c2p [of l2 a2 b2 l1 a1 b1]
        swap_h1p [of l2 a2 b2 l1 a1 b1] swap_h2p [of l2 a2 b2 l1 a1 b1])
  also have "(if v_c2 (ciede2k_run l1 a1 b1 l2 a2 b2) * v_c1 (ciede2k_run l1 a1 b1 l2 a2 b2) = 0 then 0
              else if \<bar>v_h1p (ciede2k_run l1 a1 b1 l2 a2 b2) - v_h2p (ciede2k_run l1 a1 b1 l2 a2 b2)\<bar> \<le> 180 then v_h1p (ciede2k_run l1 a1 b1 l2 a2 b2) - v_h2p (ciede2k_run l1 a1 b1 l2 a2 b2)
              else if v_h1p (ciede2k_run l1 a1 b1 l2 a2 b2) - v_h2p (ciede2k_run l1 a1 b1 l2 a2 b2) > 180 then v_h1p (ciede2k_run l1 a1 b1 l2 a2 b2) - v_h2p (ciede2k_run l1 a1 b1 l2 a2 b2) - 360
              else v_h1p (ciede2k_run l1 a1 b1 l2 a2 b2) - v_h2p (ciede2k_run l1 a1 b1 l2 a2 b2) + 360) = - ?d"
    using hue_delta_swap [of "v_c2 (ciede2k_run l1 a1 b1 l2 a2 b2) * v_c1 (ciede2k_run l1 a1 b1 l2 a2 b2) = 0" "v_h1p (ciede2k_run l1 a1 b1 l2 a2 b2)" "v_h2p (ciede2k_run l1 a1 b1 l2 a2 b2)"]
    by (simp only: mult.commute [of "v_c2 (ciede2k_run l1 a1 b1 l2 a2 b2)" "v_c1 (ciede2k_run l1 a1 b1 l2 a2 b2)"])
  also have "2 * sqrt (v_c2p (ciede2k_run l1 a1 b1 l2 a2 b2) * v_c1p (ciede2k_run l1 a1 b1 l2 a2 b2)) * sin (radians (- ?d) / 2)
             = - (2 * sqrt (v_c1p (ciede2k_run l1 a1 b1 l2 a2 b2) * v_c2p (ciede2k_run l1 a1 b1 l2 a2 b2)) * sin (radians ?d / 2))"
    by (simp only: radians_minus minus_divide_left [symmetric] sin_minus mult_minus_right
        mult.commute [of "v_c2p (ciede2k_run l1 a1 b1 l2 a2 b2)" "v_c1p (ciede2k_run l1 a1 b1 l2 a2 b2)"])
  also have "2 * sqrt (v_c1p (ciede2k_run l1 a1 b1 l2 a2 b2) * v_c2p (ciede2k_run l1 a1 b1 l2 a2 b2)) * sin (radians ?d / 2) = v_dhp (ciede2k_run l1 a1 b1 l2 a2 b2)"
    by (simp only: run_dhp [of l1 a1 b1 l2 a2 b2])
  finally show ?thesis .
qed

lemma swap_al: "v_al (ciede2k_run l2 a2 b2 l1 a1 b1) = v_al (ciede2k_run l1 a1 b1 l2 a2 b2)"
  by (simp add: run_al)

lemma swap_acp: "v_acp (ciede2k_run l2 a2 b2 l1 a1 b1) = v_acp (ciede2k_run l1 a1 b1 l2 a2 b2)"
  by (simp add: run_acp swap_c1p [of l2 a2 b2 l1 a1 b1] swap_c2p [of l2 a2 b2 l1 a1 b1])

lemma swap_ahp: "v_ahp (ciede2k_run l2 a2 b2 l1 a1 b1) = v_ahp (ciede2k_run l1 a1 b1 l2 a2 b2)"
  unfolding run_ahp swap_c1 [of l2 a2 b2 l1 a1 b1] swap_c2 [of l2 a2 b2 l1 a1 b1] swap_h1p [of l2 a2 b2 l1 a1 b1] swap_h2p [of l2 a2 b2 l1 a1 b1] by (rule mean_hue_swap)

lemma swap_t: "v_t (ciede2k_run l2 a2 b2 l1 a1 b1) = v_t (ciede2k_run l1 a1 b1 l2 a2 b2)"
  by (simp only: run_t swap_ahp [of l2 a2 b2 l1 a1 b1])

lemma swap_dro: "v_dro (ciede2k_run l2 a2 b2 l1 a1 b1) = v_dro (ciede2k_run l1 a1 b1 l2 a2 b2)"
  by (simp only: run_dro swap_ahp [of l2 a2 b2 l1 a1 b1])

lemma swap_rc: "v_rc (ciede2k_run l2 a2 b2 l1 a1 b1) = v_rc (ciede2k_run l1 a1 b1 l2 a2 b2)"
  by (simp only: run_rc swap_acp [of l2 a2 b2 l1 a1 b1])

lemma swap_sl: "v_sl (ciede2k_run l2 a2 b2 l1 a1 b1) = v_sl (ciede2k_run l1 a1 b1 l2 a2 b2)"
  by (simp only: run_sl swap_al [of l2 a2 b2 l1 a1 b1])

lemma swap_sc: "v_sc (ciede2k_run l2 a2 b2 l1 a1 b1) = v_sc (ciede2k_run l1 a1 b1 l2 a2 b2)"
  by (simp only: run_sc swap_acp [of l2 a2 b2 l1 a1 b1])

lemma swap_sh: "v_sh (ciede2k_run l2 a2 b2 l1 a1 b1) = v_sh (ciede2k_run l1 a1 b1 l2 a2 b2)"
  by (simp only: run_sh swap_acp [of l2 a2 b2 l1 a1 b1] swap_t [of l2 a2 b2 l1 a1 b1])

lemma swap_rt: "v_rt (ciede2k_run l2 a2 b2 l1 a1 b1) = v_rt (ciede2k_run l1 a1 b1 l2 a2 b2)"
  by (simp only: run_rt swap_rc [of l2 a2 b2 l1 a1 b1] swap_dro [of l2 a2 b2 l1 a1 b1])

lemma swap_under: "v_under (ciede2k_run l2 a2 b2 l1 a1 b1) = v_under (ciede2k_run l1 a1 b1 l2 a2 b2)"
  by (simp add: under_simp swap_dlp [of l2 a2 b2 l1 a1 b1] swap_dcp [of l2 a2 b2 l1 a1 b1] swap_dhp [of l2 a2 b2 l1 a1 b1] swap_sl [of l2 a2 b2 l1 a1 b1] swap_sc [of l2 a2 b2 l1 a1 b1] swap_sh [of l2 a2 b2 l1 a1 b1] swap_rt [of l2 a2 b2 l1 a1 b1] pow2_def)

lemma swap_ret: "v_ret (ciede2k_run l2 a2 b2 l1 a1 b1) = v_ret (ciede2k_run l1 a1 b1 l2 a2 b2)"
  by (simp only: run_ret swap_under [of l2 a2 b2 l1 a1 b1])

subsection \<open>CIEDE2000: the adjusted hue angles\<close>

lemma hue_rule_range:
  fixes a b d h :: real
  assumes d: "d = degrees (atan2 b a)"
    and h: "h = (if b = 0 \<and> a = 0 then 0 else if d > 0 then d else d + 360)"
  shows "0 \<le> h" and "h \<le> 360" and "h = 360 \<longleftrightarrow> b = 0 \<and> 0 < a"
proof -
  have lo: "- 180 < d" and hi: "d \<le> 180"
    unfolding d by (rule degrees_bounds [OF atan2_bounds])+
  have z: "d = 0 \<longleftrightarrow> b = 0 \<and> 0 \<le> a"
    unfolding d by (simp add: degrees_eq_0_iff atan2_eq_0_iff)
  show "0 \<le> h" using lo hi by (simp add: h)
  show "h \<le> 360" using lo hi by (simp add: h)
  show "h = 360 \<longleftrightarrow> b = 0 \<and> 0 < a"
  proof (cases "b = 0 \<and> a = 0")
    case True
    then show ?thesis by (simp add: h)
  next
    case False
    then have "h = 360 \<longleftrightarrow> d = 0"
      using lo hi by (auto simp: h)
    with False z show ?thesis by auto
  qed
qed

lemma h1p_range:
  "0 \<le> v_h1p (ciede2k_run l1 a1 b1 l2 a2 b2)" "v_h1p (ciede2k_run l1 a1 b1 l2 a2 b2) \<le> 360" "v_h1p (ciede2k_run l1 a1 b1 l2 a2 b2) = 360 \<longleftrightarrow> b1 = 0 \<and> 0 < v_a1p (ciede2k_run l1 a1 b1 l2 a2 b2)"
  by (rule hue_rule_range [OF run_h1pd run_h1p])+

lemma h2p_range:
  "0 \<le> v_h2p (ciede2k_run l1 a1 b1 l2 a2 b2)" "v_h2p (ciede2k_run l1 a1 b1 l2 a2 b2) \<le> 360" "v_h2p (ciede2k_run l1 a1 b1 l2 a2 b2) = 360 \<longleftrightarrow> b2 = 0 \<and> 0 < v_a2p (ciede2k_run l1 a1 b1 l2 a2 b2)"
  by (rule hue_rule_range [OF run_h2pd run_h2p])+

subsection \<open>CIEDE2000: symmetry, hue terms and sign\<close>

text \<open>
  C1. \<open>_ciede2kDistance\<close> is symmetric: exchanging the two LAB triples leaves the result
  unchanged, and so does exchanging the two colours of \<open>ciede2kDistance\<close>.
\<close>

theorem ciede2k_symmetric:
  "u_ciede2kDistance l1 a1 b1 l2 a2 b2 = u_ciede2kDistance l2 a2 b2 l1 a1 b1
   \<and> ciede2kDistance cv color1 color2 = ciede2kDistance cv color2 color1"
proof
  show sym: "u_ciede2kDistance l1 a1 b1 l2 a2 b2 = u_ciede2kDistance l2 a2 b2 l1 a1 b1"
    for l1 a1 b1 l2 a2 b2
    unfolding u_ciede2kDistance_def by (rule swap_ret [symmetric])
  show "ciede2kDistance cv color1 color2 = ciede2kDistance cv color2 color1"
    by (simp add: ciede2kDistance_def Let_def sym split: prod.splits)
qed

theorem ciede2k_symmetric_witness:
  "u_ciede2kDistance 50 2.6772 (- 79.7751) 50 0 (- 82.7485)
     = u_ciede2kDistance 50 0 (- 82.7485) 50 2.6772 (- 79.7751)
   \<and> ciede2kDistance sample_convert black white = ciede2kDistance sample_convert white black"
  using ciede2k_symmetric [of 50 "2.6772" "- 79.7751" 50 0 "- 82.7485" sample_convert black white]
  by simp








text \<open>
  In exact arithmetic and for LAB triples in the ranges of the specification, the argument
  of the final square root is never negative, and neither is the value returned; the
  divisors \<open>sl\<close>, \<open>sc\<close> and \<open>sh\<close> are at least \<open>1\<close>.
\<close>

theorem ciede2k_under_nonneg:
  assumes "valid_lab l1 a1 b1" and "valid_lab l2 a2 b2"
  shows "0 \<le> v_under (ciede2k_run l1 a1 b1 l2 a2 b2)
         \<and> u_ciede2kDistance l1 a1 b1 l2 a2 b2 = sqrt (v_under (ciede2k_run l1 a1 b1 l2 a2 b2))
         \<and> 0 \<le> u_ciede2kDistance l1 a1 b1 l2 a2 b2
         \<and> 1 \<le> v_sl (ciede2k_run l1 a1 b1 l2 a2 b2) \<and> 1 \<le> v_sc (ciede2k_run l1 a1 b1 l2 a2 b2) \<and> 1 \<le> v_sh (ciede2k_run l1 a1 b1 l2 a2 b2)"
proof -
  have u: "0 \<le> v_under (ciede2k_run l1 a1 b1 l2 a2 b2)" by (rule under_nonneg)
  have r: "u_ciede2kDistance l1 a1 b1 l2 a2 b2 = sqrt (v_under (ciede2k_run l1 a1 b1 l2 a2 b2))"
    by (simp only: u_ciede2kDistance_def run_ret)
  have "0 \<le> u_ciede2kDistance l1 a1 b1 l2 a2 b2"
    unfolding r using u by simp
  then show ?thesis
    using u r sl_lower [of l1 a1 b1 l2 a2 b2] sc_lower [of l1 a1 b1 l2 a2 b2]
      sh_lower [of l1 a1 b1 l2 a2 b2]
    by (intro conjI)
qed

theorem ciede2k_under_nonneg_witness:
  "valid_lab 50 2.6772 (- 79.7751) \<and> valid_lab 50 0 (- 82.7485)
   \<and> 0 \<le> v_under (ciede2k_run 50 2.6772 (- 79.7751) 50 0 (- 82.7485))
   \<and> 0 \<le> u_ciede2kDistance 50 2.6772 (- 79.7751) 50 0 (- 82.7485)"
proof -
  have v: "valid_lab 50 2.6772 (- 79.7751)" "valid_lab 50 0 (- 82.7485)"
    by (simp_all add: valid_lab_def)
  show ?thesis
    using ciede2k_under_nonneg [OF v] v by (intro conjI) (elim conjE, assumption)+
qed

text \<open>
  C4, as amended. Each adjusted hue angle follows the rule of the source: \<open>0\<close> when
  \<open>a'\<close> and \<open>b\<close> are both \<open>0\<close>, otherwise the angle \<open>atan2 (b, a')\<close> in degrees when that is
  positive and that angle plus \<open>360\<close> when it is not, where \<open>a'\<close> is \<open>(1 + g) * a\<close>. It lies
  in the closed interval from \<open>0\<close> to \<open>360\<close>.
\<close>

theorem ciede2k_hue_angle:
  "v_h1p (ciede2k_run l1 a1 b1 l2 a2 b2) =
     (if v_a1p (ciede2k_run l1 a1 b1 l2 a2 b2) = 0 \<and> b1 = 0 then 0
      else if 0 < degrees (atan2 b1 (v_a1p (ciede2k_run l1 a1 b1 l2 a2 b2))) then degrees (atan2 b1 (v_a1p (ciede2k_run l1 a1 b1 l2 a2 b2)))
      else degrees (atan2 b1 (v_a1p (ciede2k_run l1 a1 b1 l2 a2 b2))) + 360)
   \<and> v_h2p (ciede2k_run l1 a1 b1 l2 a2 b2) =
     (if v_a2p (ciede2k_run l1 a1 b1 l2 a2 b2) = 0 \<and> b2 = 0 then 0
      else if 0 < degrees (atan2 b2 (v_a2p (ciede2k_run l1 a1 b1 l2 a2 b2))) then degrees (atan2 b2 (v_a2p (ciede2k_run l1 a1 b1 l2 a2 b2)))
      else degrees (atan2 b2 (v_a2p (ciede2k_run l1 a1 b1 l2 a2 b2))) + 360)
   \<and> v_a1p (ciede2k_run l1 a1 b1 l2 a2 b2) = (1 + v_g (ciede2k_run l1 a1 b1 l2 a2 b2)) * a1
   \<and> v_a2p (ciede2k_run l1 a1 b1 l2 a2 b2) = (1 + v_g (ciede2k_run l1 a1 b1 l2 a2 b2)) * a2
   \<and> 0 \<le> v_h1p (ciede2k_run l1 a1 b1 l2 a2 b2) \<and> v_h1p (ciede2k_run l1 a1 b1 l2 a2 b2) \<le> 360
   \<and> 0 \<le> v_h2p (ciede2k_run l1 a1 b1 l2 a2 b2) \<and> v_h2p (ciede2k_run l1 a1 b1 l2 a2 b2) \<le> 360"
proof (intro conjI)
  show "v_h1p (ciede2k_run l1 a1 b1 l2 a2 b2) =
     (if v_a1p (ciede2k_run l1 a1 b1 l2 a2 b2) = 0 \<and> b1 = 0 then 0
      else if 0 < degrees (atan2 b1 (v_a1p (ciede2k_run l1 a1 b1 l2 a2 b2))) then degrees (atan2 b1 (v_a1p (ciede2k_run l1 a1 b1 l2 a2 b2)))
      else degrees (atan2 b1 (v_a1p (ciede2k_run l1 a1 b1 l2 a2 b2))) + 360)"
    by (simp only: run_h1p [of l1 a1 b1 l2 a2 b2] run_h1pd conj_commute)
  show "v_h2p (ciede2k_run l1 a1 b1 l2 a2 b2) =
     (if v_a2p (ciede2k_run l1 a1 b1 l2 a2 b2) = 0 \<and> b2 = 0 then 0
      else if 0 < degrees (atan2 b2 (v_a2p (ciede2k_run l1 a1 b1 l2 a2 b2))) then degrees (atan2 b2 (v_a2p (ciede2k_run l1 a1 b1 l2 a2 b2)))
      else degrees (atan2 b2 (v_a2p (ciede2k_run l1 a1 b1 l2 a2 b2))) + 360)"
    by (simp only: run_h2p [of l1 a1 b1 l2 a2 b2] run_h2pd conj_commute)
  show "v_a1p (ciede2k_run l1 a1 b1 l2 a2 b2) = (1 + v_g (ciede2k_run l1 a1 b1 l2 a2 b2)) * a1" by (rule run_a1p)
  show "v_a2p (ciede2k_run l1 a1 b1 l2 a2 b2) = (1 + v_g (ciede2k_run l1 a1 b1 l2 a2 b2)) * a2" by (rule run_a2p)
qed (rule h1p_range(1,2) h2p_range(1,2))+

theorem ciede2k_hue_angle_witness:
  "v_h1p (ciede2k_run 50 1 0 50 0 1) = 360
   \<and> 0 \<le> v_h2p (ciede2k_run 50 1 0 50 0 1)
   \<and> v_h2p (ciede2k_run 50 1 0 50 0 1) \<le> 360"
proof -
  have p: "0 < v_a1p (ciede2k_run 50 1 0 50 0 1)"
    by (simp add: a1p_pos_iff)
  have z: "degrees (atan2 0 (v_a1p (ciede2k_run 50 1 0 50 0 1))) = 0"
    using p by (simp add: atan2_def degrees_def)
  note T = ciede2k_hue_angle [of 50 1 0 50 0 1]
  have "v_h1p (ciede2k_run 50 1 0 50 0 1) = 360"
    using T [THEN conjunct1] p by (simp add: z)
  moreover have "0 \<le> v_h2p (ciede2k_run 50 1 0 50 0 1)"
    using T by (elim conjE)
  moreover have "v_h2p (ciede2k_run 50 1 0 50 0 1) \<le> 360"
    using T by (elim conjE)
  ultimately show ?thesis by (intro conjI)
qed

text \<open>
  C4 as stated fails: for the LAB triple \<open>(50, 1, 0)\<close> the adjusted hue angle is \<open>360\<close>,
  which is outside the half-open interval from \<open>0\<close> to \<open>360\<close>.
\<close>

theorem ciede2k_hue_angle_counterexample:
  "v_h1p (ciede2k_run 50 1 0 50 0 1) = 360
   \<and> \<not> v_h1p (ciede2k_run 50 1 0 50 0 1) < 360"
proof -
  have "0 < v_a1p (ciede2k_run 50 1 0 50 0 1)"
    by (simp add: a1p_pos_iff)
  then have "v_h1p (ciede2k_run 50 1 0 50 0 1) = 360"
    by (simp add: h1p_range(3))
  then show ?thesis by simp
qed

text \<open>
  Identical LAB triples are at distance \<open>0\<close>.
\<close>

theorem ciede2k_identity: "u_ciede2kDistance l a b l a b = 0"
proof -
  let ?R = "ciede2k_run l a b l a b"
  have a: "v_a2p ?R = v_a1p ?R" by (simp only: run_a1p run_a2p)
  have c: "v_c2p ?R = v_c1p ?R" by (simp only: run_c1p run_c2p a)
  have h: "v_h2p ?R = v_h1p ?R" by (simp only: run_h1p run_h2p run_h1pd run_h2pd a)
  have "v_dlp ?R = 0" by (simp add: run_dlp)
  moreover have "v_dcp ?R = 0" by (simp add: run_dcp c)
  moreover have "v_dhp ?R = 0" by (simp add: run_dhp h radians_def)
  ultimately have "v_under ?R = 0" by (simp add: under_simp pow2_def)
  then show ?thesis by (simp add: u_ciede2kDistance_def run_ret)
qed

end
